theory Spec2Isabelle
  imports Main "HOL-Library.Sublist"
begin

section \<open>Values shared by all modules\<close>

text \<open>
  A thrown JavaScript value. Everything the program can catch is raised by Node's
  \<^verbatim>\<open>fs\<close>, by \<^verbatim>\<open>glob\<close>, by \<^verbatim>\<open>JSON.parse\<close> or by the runtime itself (a
  \<^verbatim>\<open>TypeError\<close>), so it is an \<^verbatim>\<open>Error\<close> object; the model keeps its
  \<^verbatim>\<open>message\<close>. An operation that may throw returns \<open>error + 'a\<close>, with \<open>Inl\<close> the
  thrown error.
\<close>

datatype error = Error (message: string)

text \<open>\<^verbatim>\<open>String.prototype.includes\<close>: the marker occurs as a contiguous substring.\<close>

fun str_includes :: "string \<Rightarrow> string \<Rightarrow> bool" where
  "str_includes [] sub = (sub = [])"
| "str_includes (c # cs) sub = (prefix sub (c # cs) \<or> str_includes cs sub)"

text \<open>\<^verbatim>\<open>Array.prototype.join\<close>.\<close>

fun join :: "string \<Rightarrow> string list \<Rightarrow> string" where
  "join sep [] = []"
| "join sep [x] = x"
| "join sep (x # y # ys) = x @ sep @ join sep (y # ys)"

text \<open>
  A conditional push: \<^verbatim>\<open>if (c) xs.push(x)\<close> appends \<open>pushed c x\<close> to \<open>xs\<close>.
\<close>

definition pushed :: "bool \<Rightarrow> 'a \<Rightarrow> 'a list" where
  "pushed c x = (if c then [x] else [])"

section \<open>The workspace as the program observes it\<close>

text \<open>
  The parsed \<^verbatim>\<open>package.json\<close>. A dependency table maps a package name to the
  truthiness of its JSON value (a version string is truthy); \<open>None\<close> for a table is
  a missing or falsy \<^verbatim>\<open>dependencies\<close> property. The document root may also be
  \<^verbatim>\<open>null\<close>, on which every property access throws a \<^verbatim>\<open>TypeError\<close>.
\<close>

type_synonym deps = "string \<rightharpoonup> bool"

record packageJson =
  dependencies :: "deps option"
  devDependencies :: "deps option"

datatype json = JsonNull | JsonValue packageJson

text \<open>
  The filesystem interface, relative to \<^verbatim>\<open>workspaceRoot\<close>:
  \<^item> \<open>packageJsonFile\<close> is \<^verbatim>\<open>JSON.parse(await fs.readFile(path.join(workspaceRoot, 'package.json'), 'utf-8'))\<close>;
  \<^item> \<open>readFile p\<close> is \<^verbatim>\<open>fs.readFile(path.join(workspaceRoot, p), 'utf-8')\<close>;
  \<^item> \<open>access p\<close> is \<^verbatim>\<open>fs.access(path.join(workspaceRoot, p))\<close>;
  \<^item> \<open>glob pat ign\<close> is \<^verbatim>\<open>glob(pat, { cwd: workspaceRoot, ignore: ign })\<close>.
  Each of them either yields its value or throws.
\<close>

record workspace =
  packageJsonFile :: "error + json"
  readFile :: "string \<Rightarrow> error + string"
  access :: "string \<Rightarrow> error + unit"
  glob :: "string \<Rightarrow> string list \<Rightarrow> error + string list"

text \<open>\<^verbatim>\<open>{ ...packageJson.dependencies, ...packageJson.devDependencies }\<close>\<close>

definition spreadDeps :: "packageJson \<Rightarrow> deps" where
  "spreadDeps pj =
     (case dependencies pj of None \<Rightarrow> Map.empty | Some d \<Rightarrow> d) ++
     (case devDependencies pj of None \<Rightarrow> Map.empty | Some d \<Rightarrow> d)"

text \<open>\<^verbatim>\<open>deps[k]\<close> used as a condition.\<close>

definition truthy :: "deps \<Rightarrow> string \<Rightarrow> bool" where
  "truthy d k = (d k = Some True)"

text \<open>The ignore list most globs pass.\<close>

definition stdIgnore :: "string list" where
  "stdIgnore = [''**/node_modules/**'', ''**/dist/**'', ''**/build/**'']"

section \<open>Tech stack detection (\<^verbatim>\<open>analyzeTechStack\<close>)\<close>

record TechStack =
  languages :: "string list"
  frameworks :: "string list"
  databases :: "string list"
  buildTools :: "string list"
  packageManagers :: "string list"
  cloudProviders :: "string list"
  hasReact :: bool
  hasTypeScript :: bool
  hasNode :: bool
  hasPython :: bool
  hasJava :: bool
  hasGo :: bool
  hasRust :: bool

definition emptyStack :: TechStack where
  "emptyStack = \<lparr>languages = [], frameworks = [], databases = [], buildTools = [],
     packageManagers = [], cloudProviders = [], hasReact = False, hasTypeScript = False,
     hasNode = False, hasPython = False, hasJava = False, hasGo = False, hasRust = False\<rparr>"

text \<open>
  The body of \<^verbatim>\<open>if (packageJson.dependencies || packageJson.devDependencies)\<close>:
  React, TypeScript, the other frameworks, the databases, the build tools.
\<close>

definition detectDependencies :: "packageJson \<Rightarrow> TechStack \<Rightarrow> TechStack" where
  "detectDependencies pj ts0 =
     (let deps = spreadDeps pj;
          ts1 = (if truthy deps ''react'' \<or> truthy deps ''react-dom''
                 then ts0\<lparr>hasReact := True, frameworks := frameworks ts0 @ [''React'']\<rparr>
                 else ts0);
          ts2 = (if truthy deps ''typescript'' \<or>
                    (case devDependencies pj of None \<Rightarrow> False | Some d \<Rightarrow> truthy d ''typescript'')
                 then ts1\<lparr>hasTypeScript := True\<rparr>
                 else ts1);
          ts3 = ts2\<lparr>frameworks := frameworks ts2
                   @ pushed (truthy deps ''next'') ''Next.js''
                   @ pushed (truthy deps ''vue'') ''Vue.js''
                   @ pushed (truthy deps ''angular'') ''Angular''
                   @ pushed (truthy deps ''express'') ''Express''
                   @ pushed (truthy deps ''@nestjs/core'') ''NestJS''
                   @ pushed (truthy deps ''fastify'') ''Fastify''
                   @ pushed (truthy deps ''koa'') ''Koa''\<rparr>;
          ts4 = ts3\<lparr>databases := databases ts3
                   @ pushed (truthy deps ''mongoose'') ''MongoDB''
                   @ pushed (truthy deps ''sequelize'' \<or> truthy deps ''typeorm'') ''SQL''
                   @ pushed (truthy deps ''pg'' \<or> truthy deps ''pg-native'') ''PostgreSQL''
                   @ pushed (truthy deps ''mysql'' \<or> truthy deps ''mysql2'') ''MySQL''
                   @ pushed (truthy deps ''redis'') ''Redis''
                   @ pushed (truthy deps ''@prisma/client'') ''Prisma''\<rparr>
      in ts4\<lparr>buildTools := buildTools ts4
                   @ pushed (truthy deps ''webpack'') ''Webpack''
                   @ pushed (truthy deps ''vite'') ''Vite''
                   @ pushed (truthy deps ''rollup'') ''Rollup''
                   @ pushed (truthy deps ''esbuild'') ''esbuild''\<rparr>)"

text \<open>
  The \<^verbatim>\<open>package.json\<close> probe. A failed read or parse leaves the stack as it is. On a
  \<^verbatim>\<open>null\<close> document \<^verbatim>\<open>npm\<close> and \<^verbatim>\<open>hasNode\<close> are already recorded when
  \<^verbatim>\<open>packageJson.dependencies\<close> throws, and the catch keeps them.
\<close>

definition probePackageJson :: "workspace \<Rightarrow> TechStack \<Rightarrow> TechStack" where
  "probePackageJson ws ts =
     (case packageJsonFile ws of
        Inl e \<Rightarrow> ts
      | Inr doc \<Rightarrow>
          let ts1 = ts\<lparr>packageManagers := packageManagers ts @ [''npm''], hasNode := True\<rparr>
          in (case doc of
                JsonNull \<Rightarrow> ts1
              | JsonValue pj \<Rightarrow>
                  let ts2 = (if dependencies pj \<noteq> None \<or> devDependencies pj \<noteq> None
                             then detectDependencies pj ts1 else ts1);
                      ts3 = ts2\<lparr>languages := languages ts2 @ [''JavaScript'']\<rparr>
                  in if hasTypeScript ts3
                     then ts3\<lparr>languages := languages ts3 @ [''TypeScript'']\<rparr>
                     else ts3))"

text \<open>
  The \<^verbatim>\<open>requirements.txt\<close> probe: Python is recorded as soon as the file is
  accessible; the framework markers need the read to succeed as well.
\<close>

definition probeRequirements :: "workspace \<Rightarrow> TechStack \<Rightarrow> TechStack" where
  "probeRequirements ws ts =
     (case access ws ''requirements.txt'' of
        Inl e \<Rightarrow> ts
      | Inr u \<Rightarrow>
          let ts1 = ts\<lparr>hasPython := True, languages := languages ts @ [''Python''],
                        packageManagers := packageManagers ts @ [''pip'']\<rparr>
          in (case readFile ws ''requirements.txt'' of
                Inl e \<Rightarrow> ts1
              | Inr requirements \<Rightarrow>
                  ts1\<lparr>frameworks := frameworks ts1
                         @ pushed (str_includes requirements ''django'') ''Django''
                         @ pushed (str_includes requirements ''flask'') ''Flask''
                         @ pushed (str_includes requirements ''fastapi'') ''FastAPI'',
                       databases := databases ts1
                         @ pushed (str_includes requirements ''sqlalchemy'') ''SQL''\<rparr>))"

text \<open>\<^verbatim>\<open>pom.xml\<close>, and \<^verbatim>\<open>build.gradle\<close> only when \<^verbatim>\<open>pom.xml\<close> is not accessible.\<close>

definition probeJava :: "workspace \<Rightarrow> TechStack \<Rightarrow> TechStack" where
  "probeJava ws ts =
     (case access ws ''pom.xml'' of
        Inr u \<Rightarrow> ts\<lparr>hasJava := True, languages := languages ts @ [''Java''],
                      packageManagers := packageManagers ts @ [''Maven'']\<rparr>
      | Inl e \<Rightarrow>
          (case access ws ''build.gradle'' of
             Inr u \<Rightarrow> ts\<lparr>hasJava := True, languages := languages ts @ [''Java''],
                           packageManagers := packageManagers ts @ [''Gradle'']\<rparr>
           | Inl e2 \<Rightarrow> ts))"

definition probeGo :: "workspace \<Rightarrow> TechStack \<Rightarrow> TechStack" where
  "probeGo ws ts =
     (case access ws ''go.mod'' of
        Inr u \<Rightarrow> ts\<lparr>hasGo := True, languages := languages ts @ [''Go'']\<rparr>
      | Inl e \<Rightarrow> ts)"

definition probeRust :: "workspace \<Rightarrow> TechStack \<Rightarrow> TechStack" where
  "probeRust ws ts =
     (case access ws ''Cargo.toml'' of
        Inr u \<Rightarrow> ts\<lparr>hasRust := True, languages := languages ts @ [''Rust'']\<rparr>
      | Inl e \<Rightarrow> ts)"

definition probeCloud :: "workspace \<Rightarrow> TechStack \<Rightarrow> TechStack" where
  "probeCloud ws ts =
     (case glob ws ''**/{vercel.json,netlify.toml,serverless.yml,.github/workflows/*.yml}'' [] of
        Inl e \<Rightarrow> ts
      | Inr files \<Rightarrow>
          ts\<lparr>cloudProviders := cloudProviders ts
                @ pushed (list_ex (\<lambda>f. str_includes f ''vercel'') files) ''Vercel''
                @ pushed (list_ex (\<lambda>f. str_includes f ''netlify'') files) ''Netlify''
                @ pushed (list_ex (\<lambda>f. str_includes f ''serverless'') files) ''AWS Lambda''
                @ pushed (list_ex (\<lambda>f. str_includes f ''.github/workflows'') files) ''GitHub Actions''\<rparr>)"

definition probeDocker :: "workspace \<Rightarrow> TechStack \<Rightarrow> TechStack" where
  "probeDocker ws ts =
     (case access ws ''Dockerfile'' of
        Inr u \<Rightarrow> ts\<lparr>buildTools := buildTools ts @ [''Docker'']\<rparr>
      | Inl e \<Rightarrow> ts)"

definition probeKubernetes :: "workspace \<Rightarrow> TechStack \<Rightarrow> TechStack" where
  "probeKubernetes ws ts =
     (case glob ws ''**/*.yaml'' [] of
        Inl e \<Rightarrow> ts
      | Inr k8sFiles \<Rightarrow>
          ts\<lparr>cloudProviders := cloudProviders ts
                @ pushed (list_ex (\<lambda>f. str_includes f ''k8s'' \<or> str_includes f ''kubernetes'') k8sFiles)
                    ''Kubernetes''\<rparr>)"

text \<open>
  \<^verbatim>\<open>analyzeTechStack\<close>: the probes run in source order on the one mutable
  \<^verbatim>\<open>techStack\<close> object. Each probe sits in its own \<^verbatim>\<open>try\<close> whose \<^verbatim>\<open>catch\<close>
  is empty, so the outer \<^verbatim>\<open>try\<close> ends with \<^verbatim>\<open>return techStack\<close>; its
  \<^verbatim>\<open>catch\<close> returns the same object.
\<close>

definition analyzeTechStack :: "workspace \<Rightarrow> error + TechStack" where
  "analyzeTechStack ws =
     Inr (probeKubernetes ws (probeDocker ws (probeCloud ws (probeRust ws (probeGo ws
       (probeJava ws (probeRequirements ws (probePackageJson ws emptyStack))))))))"

section \<open>Guideline texts\<close>

text \<open>The blocks of guidelines the analyzers push, each as the source lists it.\<close>

definition securityNodeGuidelines :: "string list" where
  \<open>securityNodeGuidelines = [
     ''Always use parameterized queries or ORM methods to prevent SQL injection'',
     ''Validate and sanitize all user inputs before processing'',
     ''Use environment variables for sensitive data, never hardcode secrets'',
     ''Implement proper authentication and authorization checks'',
     ''Use HTTPS in production and secure cookies with httpOnly and secure flags'',
     ''Implement rate limiting on API endpoints'',
     ''Use Content Security Policy (CSP) headers'',
     ''Keep dependencies updated and scan for vulnerabilities'']\<close>

definition securityPythonGuidelines :: "string list" where
  \<open>securityPythonGuidelines = [
     ''Use parameterized queries with database libraries'',
     ''Validate inputs using libraries like pydantic or marshmallow'',
     ''Never use eval() or exec() with user input'',
     ''Use secrets management for API keys and credentials'',
     ''Implement proper session management'',
     ''Use CSRF protection for forms'']\<close>

definition securityAuthGuidelines :: "string list" where
  \<open>securityAuthGuidelines = [
     ''Follow OAuth 2.0 best practices when implementing authentication'',
     ''Store JWT tokens securely (httpOnly cookies preferred over localStorage)'',
     ''Implement token refresh mechanisms'',
     ''Validate JWT signatures and expiration'',
     ''Use strong password hashing (bcrypt, argon2)'']\<close>

definition securityValidationGuidelines :: "string list" where
  \<open>securityValidationGuidelines = [
     ''Validate input types, ranges, and formats'',
     ''Sanitize user input to prevent XSS attacks'',
     ''Use whitelist validation over blacklist'',
     ''Validate file uploads (type, size, content)'']\<close>

definition securityEnvVarsGuidelines :: "string list" where
  \<open>securityEnvVarsGuidelines = [
     ''Never commit .env files to version control'',
     ''Use different credentials for development, staging, and production'',
     ''Rotate secrets regularly'',
     ''Use secret management services in production'']\<close>

definition performanceGeneralGuidelines :: "string list" where
  \<open>performanceGeneralGuidelines = [
     ''Optimize database queries: use indexes, avoid N+1 queries, use pagination'',
     ''Implement caching for frequently accessed data'',
     ''Use lazy loading for images and heavy resources'',
     ''Minimize bundle size: code splitting, tree shaking, dynamic imports'',
     ''Optimize API responses: pagination, filtering, field selection'',
     ''Use debouncing and throttling for user input handlers'',
     ''Implement proper error boundaries to prevent full app crashes'',
     ''Profile and measure before optimizing'']\<close>

definition performanceNodeGuidelines :: "string list" where
  \<open>performanceNodeGuidelines = [
     ''Use async/await or Promises for I/O operations, never block the event loop'',
     ''Implement connection pooling for database connections'',
     ''Use streaming for large file operations'',
     ''Enable gzip/brotli compression for HTTP responses'',
     ''Use worker threads for CPU-intensive tasks'',
     ''Implement request queuing for rate-limited APIs'']\<close>

definition performanceReactGuidelines :: "string list" where
  \<open>performanceReactGuidelines = [
     ''Use React.memo() for expensive components'',
     ''Implement code splitting with React.lazy() and Suspense'',
     ''Avoid unnecessary re-renders: use useMemo() and useCallback()'',
     ''Virtualize long lists with react-window or react-virtualized'',
     ''Optimize images: use next/image, WebP format, lazy loading'',
     ''Use production builds with optimizations enabled'',
     ''Profile with React DevTools Profiler'']\<close>

definition performanceTypeScriptGuidelines :: "string list" where
  \<open>performanceTypeScriptGuidelines = [
     ''Use TypeScript for better tree-shaking and dead code elimination'',
     ''Avoid any types that prevent optimizations'']\<close>

definition performanceDbFilesGuidelines :: "string list" where
  \<open>performanceDbFilesGuidelines = [
     ''Use database indexes on frequently queried columns'',
     ''Implement query result caching'',
     ''Use database connection pooling'',
     ''Avoid SELECT * - only fetch needed columns'',
     ''Use batch operations instead of individual queries'',
     ''Implement database query logging and monitoring'']\<close>

definition performanceCacheGuidelines :: "string list" where
  \<open>performanceCacheGuidelines = [
     ''Cache expensive computations and API responses'',
     ''Set appropriate cache expiration times'',
     ''Use cache invalidation strategies'',
     ''Implement cache warming for critical data'']\<close>

definition performanceAsyncGuidelines :: "string list" where
  \<open>performanceAsyncGuidelines = [
     ''Use Promise.all() for parallel async operations when possible'',
     ''Avoid sequential await calls when operations are independent'',
     ''Handle errors properly in async code to prevent unhandled rejections'']\<close>

definition reactCoreGuidelines :: "string list" where
  \<open>reactCoreGuidelines = [
     ''Use functional components with hooks instead of class components'',
     ''Keep components small and focused on a single responsibility'',
     ''Extract reusable logic into custom hooks'',
     ''Use proper key props for list items'',
     ''Avoid creating functions and objects inside render methods'',
     ''Use TypeScript for type safety in React components'']\<close>

definition reactStateGuidelines :: "string list" where
  \<open>reactStateGuidelines = [
     ''Lift state up when multiple components need the same data'',
     ''Use useState for local component state'',
     ''Consider useReducer for complex state logic'',
     ''Avoid prop drilling - use Context or state management library'']\<close>

definition reactEffectGuidelines :: "string list" where
  \<open>reactEffectGuidelines = [
     ''Always include dependencies in useEffect dependency array'',
     ''Clean up subscriptions and timers in useEffect cleanup function'',
     ''Use multiple useEffect hooks to separate concerns'',
     ''Avoid side effects in render - use useEffect'',
     ''Be careful with infinite loops in useEffect'']\<close>

definition reactContextGuidelines :: "string list" where
  \<open>reactContextGuidelines = [
     ''Split contexts by concern to avoid unnecessary re-renders'',
     ''Use Context for theme, auth, or app-wide state'',
     ''Consider performance implications of Context value changes'']\<close>

definition reactCustomHooksGuidelines :: "string list" where
  \<open>reactCustomHooksGuidelines = [
     ''Extract component logic into custom hooks for reusability'',
     ''Custom hooks should start with "use" prefix'',
     ''Return values and functions from custom hooks consistently'']\<close>

definition reactReduxGuidelines :: "string list" where
  \<open>reactReduxGuidelines = [
     ''Use Redux Toolkit for modern Redux patterns'',
     ''Keep reducers pure and side-effect free'',
     ''Use createSlice for simpler reducer logic'',
     ''Use RTK Query for data fetching when appropriate'',
     ''Select only needed data from Redux store'']\<close>

definition reactZustandGuidelines :: "string list" where
  \<open>reactZustandGuidelines = [
     ''Use Zustand for simpler state management needs'',
     ''Keep stores focused and split by domain'',
     ''Use selectors to prevent unnecessary re-renders'']\<close>

definition reactNextJSGuidelines :: "string list" where
  \<open>reactNextJSGuidelines = [
     ''Use Next.js App Router for new projects'',
     ''Use Server Components by default, Client Components when needed'',
     ''Use next/image for optimized images'',
     ''Implement proper SEO with metadata API'',
     ''Use next/link for client-side navigation'',
     ''Leverage ISR (Incremental Static Regeneration) for dynamic content'',
     ''Use API routes for backend functionality'',
     ''Implement proper error boundaries and error pages'']\<close>

definition reactPerformanceGuidelines :: "string list" where
  \<open>reactPerformanceGuidelines = [
     ''Use React.memo() for components that render frequently with same props'',
     ''Use useMemo() for expensive computations'',
     ''Use useCallback() for functions passed as props'',
     ''Implement code splitting with React.lazy()'',
     ''Virtualize long lists'',
     ''Optimize re-renders with React DevTools Profiler'']\<close>

definition reactTestingGuidelines :: "string list" where
  \<open>reactTestingGuidelines = [
     ''Write tests for components using React Testing Library'',
     ''Test user interactions, not implementation details'',
     ''Use data-testid sparingly, prefer accessible queries'']\<close>

definition backendNodeGuidelines :: "string list" where
  \<open>backendNodeGuidelines = [
     ''Use async/await for all async operations'',
     ''Implement proper error handling middleware'',
     ''Validate request data using libraries like Joi or Zod'',
     ''Use environment variables for configuration'',
     ''Implement request logging and monitoring'',
     ''Use helmet.js for security headers'',
     ''Implement rate limiting on API endpoints'',
     ''Use compression middleware for responses'',
     ''Structure routes logically and use route modules'',
     ''Implement proper CORS configuration'']\<close>

definition backendExpressGuidelines :: "string list" where
  \<open>backendExpressGuidelines = [
     ''Use Express Router for organizing routes'',
     ''Separate route handlers from business logic'',
     ''Use middleware for cross-cutting concerns'',
     ''Implement proper error handling with error middleware'']\<close>

definition backendNestJSGuidelines :: "string list" where
  \<open>backendNestJSGuidelines = [
     ''Use dependency injection with NestJS'',
     ''Organize code into modules, controllers, and services'',
     ''Use DTOs for data validation'',
     ''Implement guards for authentication and authorization'',
     ''Use interceptors for cross-cutting concerns'',
     ''Leverage NestJS decorators for clean code'']\<close>

definition backendPythonGuidelines :: "string list" where
  \<open>backendPythonGuidelines = [
     ''Use type hints for better code quality'',
     ''Implement proper exception handling'',
     ''Use virtual environments for dependency management'',
     ''Follow PEP 8 style guidelines'',
     ''Use async/await for I/O operations when using async frameworks'']\<close>

definition backendDjangoGuidelines :: "string list" where
  \<open>backendDjangoGuidelines = [
     ''Use Django REST Framework for APIs'',
     ''Follow Django best practices: apps, models, views'',
     ''Use Django middleware for cross-cutting concerns'',
     ''Implement proper model relationships and migrations'',
     ''Use Django signals sparingly'',
     ''Optimize database queries with select_related and prefetch_related'']\<close>

definition backendFlaskGuidelines :: "string list" where
  \<open>backendFlaskGuidelines = [
     ''Use Flask-RESTful or Flask-RESTX for APIs'',
     ''Organize code into blueprints'',
     ''Use Flask extensions for common functionality'',
     ''Implement proper error handling'',
     ''Use Flask-SQLAlchemy for database operations'']\<close>

definition backendFastAPIGuidelines :: "string list" where
  \<open>backendFastAPIGuidelines = [
     ''Use Pydantic models for request/response validation'',
     ''Leverage FastAPI dependency injection'',
     ''Use async endpoints for I/O-bound operations'',
     ''Implement proper OpenAPI documentation'',
     ''Use background tasks for long-running operations'']\<close>

definition backendJavaGuidelines :: "string list" where
  \<open>backendJavaGuidelines = [
     ''Follow Spring Boot best practices'',
     ''Use dependency injection with Spring'',
     ''Implement proper exception handling with @ControllerAdvice'',
     ''Use DTOs for API contracts'',
     ''Implement proper logging with SLF4J'',
     ''Use Spring Data JPA for database operations'',
     ''Follow RESTful API design principles'']\<close>

definition backendGoGuidelines :: "string list" where
  \<open>backendGoGuidelines = [
     ''Follow Go idioms and conventions'',
     ''Use interfaces for abstraction'',
     ''Implement proper error handling (return errors, don't panic)'',
     ''Use context.Context for cancellation and timeouts'',
     ''Organize code into packages logically'',
     ''Use go routines and channels appropriately'',
     ''Implement proper logging'',
     ''Use dependency injection patterns'']\<close>

definition backendGeneralGuidelines :: "string list" where
  \<open>backendGeneralGuidelines = [
     ''Implement proper authentication and authorization'',
     ''Use HTTPS in production'',
     ''Implement request validation and sanitization'',
     ''Use connection pooling for database connections'',
     ''Implement proper logging and monitoring'',
     ''Handle errors gracefully and return appropriate HTTP status codes'',
     ''Use environment-specific configuration'',
     ''Implement health check endpoints'',
     ''Document APIs with OpenAPI/Swagger'',
     ''Use proper HTTP status codes'',
     ''Implement pagination for list endpoints'',
     ''Use versioning for APIs when needed'']\<close>

definition backendMiddlewareGuidelines :: "string list" where
  \<open>backendMiddlewareGuidelines = [
     ''Use middleware for authentication, logging, error handling'',
     ''Order middleware correctly (auth before routes)'',
     ''Keep middleware focused and reusable'']\<close>

definition frontendGeneralGuidelines :: "string list" where
  \<open>frontendGeneralGuidelines = [
     ''Write semantic HTML'',
     ''Ensure accessibility (a11y): proper ARIA labels, keyboard navigation'',
     ''Optimize images: use appropriate formats (WebP, AVIF), lazy loading'',
     ''Implement responsive design (mobile-first approach)'',
     ''Use CSS variables for theming'',
     ''Minimize layout shifts (CLS)'',
     ''Optimize font loading'',
     ''Implement proper error boundaries'']\<close>

definition frontendTypeScriptGuidelines :: "string list" where
  \<open>frontendTypeScriptGuidelines = [
     ''Use TypeScript for type safety'',
     ''Define proper interfaces for props and data structures'',
     ''Avoid using any type'',
     ''Use strict mode for better type checking'']\<close>

definition frontendTailwindGuidelines :: "string list" where
  \<open>frontendTailwindGuidelines = [
     ''Use Tailwind utility classes for styling'',
     ''Extract repeated patterns into components'',
     ''Use Tailwind plugins for custom utilities'',
     ''Configure Tailwind theme for design system consistency'',
     ''Use @apply sparingly, prefer utility classes'']\<close>

definition frontendStyledComponentsGuidelines :: "string list" where
  \<open>frontendStyledComponentsGuidelines = [
     ''Use styled-components for component-scoped styling'',
     ''Extract styled components into separate files for reusability'',
     ''Use theme provider for consistent theming'',
     ''Avoid inline styles, use styled components'',
     ''Use CSS-in-JS best practices for performance'']\<close>

definition frontendCSSModulesGuidelines :: "string list" where
  \<open>frontendCSSModulesGuidelines = [
     ''Use CSS Modules for scoped styling'',
     ''Follow BEM naming convention when appropriate'',
     ''Keep CSS modules co-located with components'']\<close>

definition frontendMaterialUIGuidelines :: "string list" where
  \<open>frontendMaterialUIGuidelines = [
     ''Use Material-UI components consistently'',
     ''Customize theme using MUI theme provider'',
     ''Follow Material Design principles'',
     ''Use MUI Grid system for layouts'']\<close>

definition frontendChakraUIGuidelines :: "string list" where
  \<open>frontendChakraUIGuidelines = [
     ''Use Chakra UI components and hooks'',
     ''Customize theme through ChakraProvider'',
     ''Use Chakra responsive props for mobile-first design'']\<close>

definition frontendAntDesignGuidelines :: "string list" where
  \<open>frontendAntDesignGuidelines = [
     ''Use Ant Design components consistently'',
     ''Customize theme through ConfigProvider'',
     ''Follow Ant Design design principles'']\<close>

definition frontendPerformanceGuidelines :: "string list" where
  \<open>frontendPerformanceGuidelines = [
     ''Implement code splitting for routes'',
     ''Lazy load components and routes'',
     ''Optimize bundle size with tree shaking'',
     ''Use dynamic imports for heavy libraries'',
     ''Implement virtual scrolling for long lists'',
     ''Debounce/throttle user input handlers'',
     ''Use Web Workers for heavy computations'']\<close>

definition frontendTestingGuidelines :: "string list" where
  \<open>frontendTestingGuidelines = [
     ''Write unit tests for components'',
     ''Test user interactions, not implementation'',
     ''Use accessibility testing tools'',
     ''Test responsive design at different breakpoints'']\<close>

definition databaseMongoDBGuidelines :: "string list" where
  \<open>databaseMongoDBGuidelines = [
     ''Use Mongoose for MongoDB operations in Node.js'',
     ''Define schemas with proper validation'',
     ''Use indexes for frequently queried fields'',
     ''Implement proper error handling for database operations'',
     ''Use transactions for multi-document operations'',
     ''Avoid deep nesting in documents'',
     ''Use aggregation pipeline for complex queries'',
     ''Implement proper connection handling and pooling'']\<close>

definition databaseSQLGuidelines :: "string list" where
  \<open>databaseSQLGuidelines = [
     ''Use parameterized queries to prevent SQL injection'',
     ''Create indexes on frequently queried columns'',
     ''Use transactions for multi-step operations'',
     ''Implement proper connection pooling'',
     ''Use database migrations for schema changes'',
     ''Avoid N+1 query problems'',
     ''Use EXPLAIN to analyze query performance'',
     ''Normalize database schema appropriately'']\<close>

definition databasePrismaGuidelines :: "string list" where
  \<open>databasePrismaGuidelines = [
     ''Use Prisma Client for type-safe database access'',
     ''Define schema in schema.prisma file'',
     ''Use Prisma migrations for schema changes'',
     ''Leverage Prisma relations for data relationships'',
     ''Use Prisma Studio for database inspection'',
     ''Generate Prisma Client after schema changes'']\<close>

definition databaseSequelizeGuidelines :: "string list" where
  \<open>databaseSequelizeGuidelines = [
     ''Define models with Sequelize'',
     ''Use migrations for schema changes'',
     ''Use Sequelize associations for relationships'',
     ''Implement proper error handling'',
     ''Use transactions for complex operations'']\<close>

definition databaseTypeORMGuidelines :: "string list" where
  \<open>databaseTypeORMGuidelines = [
     ''Use TypeORM decorators for entity definitions'',
     ''Use migrations for schema changes'',
     ''Leverage TypeORM relations'',
     ''Use repositories for data access'',
     ''Implement proper transaction handling'']\<close>

definition databaseSQLAlchemyGuidelines :: "string list" where
  \<open>databaseSQLAlchemyGuidelines = [
     ''Use SQLAlchemy ORM for database operations'',
     ''Define models with SQLAlchemy'',
     ''Use Alembic for migrations'',
     ''Implement proper session management'',
     ''Use SQLAlchemy relationships for associations'']\<close>

definition databaseRedisGuidelines :: "string list" where
  \<open>databaseRedisGuidelines = [
     ''Use Redis for caching and session storage'',
     ''Set appropriate expiration times for cached data'',
     ''Use Redis pub/sub for real-time features'',
     ''Implement cache invalidation strategies'',
     ''Use Redis pipelines for batch operations'',
     ''Monitor Redis memory usage'']\<close>

definition databaseGeneralGuidelines :: "string list" where
  \<open>databaseGeneralGuidelines = [
     ''Always handle database errors gracefully'',
     ''Use connection pooling for better performance'',
     ''Implement proper logging for database operations'',
     ''Use database transactions for data consistency'',
     ''Backup databases regularly'',
     ''Monitor database performance and slow queries'',
     ''Use database indexes strategically'',
     ''Avoid storing sensitive data in plain text'',
     ''Implement proper data validation at the database level'',
     ''Use database constraints for data integrity'']\<close>

definition apiRESTGuidelines :: "string list" where
  \<open>apiRESTGuidelines = [
     ''Use proper HTTP methods: GET for retrieval, POST for creation, PUT for updates, DELETE for removal'',
     ''Use RESTful URL patterns: /resources/:id for specific resources'',
     ''Return appropriate HTTP status codes: 200 OK, 201 Created, 400 Bad Request, 404 Not Found, 500 Server Error'',
     ''Implement proper error handling and return error responses consistently'',
     ''Use pagination for list endpoints'',
     ''Implement filtering, sorting, and searching capabilities'',
     ''Version APIs when making breaking changes'',
     ''Use proper Content-Type headers'',
     ''Implement rate limiting to prevent abuse'',
     ''Validate and sanitize all input data'',
     ''Use HTTPS in production'',
     ''Implement proper authentication and authorization'',
     ''Return consistent response formats'',
     ''Document APIs with OpenAPI/Swagger'',
     ''Use proper HTTP caching headers when appropriate'']\<close>

definition apiGraphQLGuidelines :: "string list" where
  \<open>apiGraphQLGuidelines = [
     ''Design GraphQL schema thoughtfully'',
     ''Use DataLoader to prevent N+1 query problems'',
     ''Implement proper error handling in resolvers'',
     ''Use GraphQL fragments for reusable query parts'',
     ''Implement query complexity analysis'',
     ''Use subscriptions for real-time features'',
     ''Validate and sanitize resolver inputs'',
     ''Use GraphQL directives for authorization'',
     ''Implement proper pagination with connections pattern'',
     ''Document schema with descriptions'',
     ''Use GraphQL Playground or GraphiQL for development'']\<close>

definition apiGeneralGuidelines :: "string list" where
  \<open>apiGeneralGuidelines = [
     ''Implement request validation'',
     ''Use proper error messages that are helpful but not revealing'',
     ''Implement logging for API requests and responses'',
     ''Use API keys or tokens for authentication'',
     ''Implement CORS properly'',
     ''Use compression (gzip/brotli) for responses'',
     ''Implement request timeouts'',
     ''Use proper content negotiation'',
     ''Implement health check endpoints'',
     ''Monitor API performance and errors'',
     ''Use API gateway patterns when appropriate'',
     ''Implement proper request/response logging'',
     ''Use idempotency keys for critical operations'']\<close>

definition testingGeneralGuidelines :: "string list" where
  \<open>testingGeneralGuidelines = [
     ''Write tests that are independent and can run in any order'',
     ''Use descriptive test names that explain what is being tested'',
     ''Follow AAA pattern: Arrange, Act, Assert'',
     ''Test behavior, not implementation'',
     ''Keep tests simple and focused on one thing'',
     ''Use mocks and stubs for external dependencies'',
     ''Test edge cases and error conditions'',
     ''Maintain good test coverage but focus on critical paths'',
     ''Keep tests fast and reliable'',
     ''Refactor tests when code changes'']\<close>

definition testingJestGuidelines :: "string list" where
  \<open>testingJestGuidelines = [
     ''Use Jest for unit and integration tests'',
     ''Use describe blocks to group related tests'',
     ''Use beforeEach/afterEach for test setup and cleanup'',
     ''Mock external dependencies with jest.mock()'',
     ''Use snapshot tests sparingly for UI components'',
     ''Use test.each for parameterized tests'',
     ''Configure Jest coverage thresholds'',
     ''Use async/await in tests for async code'']\<close>

definition testingVitestGuidelines :: "string list" where
  \<open>testingVitestGuidelines = [
     ''Use Vitest for fast unit tests'',
     ''Leverage Vitest's ESM support'',
     ''Use Vitest UI for better test debugging'',
     ''Configure Vitest for your project structure'']\<close>

definition testingMochaGuidelines :: "string list" where
  \<open>testingMochaGuidelines = [
     ''Use Mocha with Chai for assertions'',
     ''Use beforeEach/afterEach hooks for setup'',
     ''Organize tests with describe blocks'']\<close>

definition testingReactTestingLibraryGuidelines :: "string list" where
  \<open>testingReactTestingLibraryGuidelines = [
     ''Use React Testing Library for component tests'',
     ''Test user interactions, not implementation details'',
     ''Use accessible queries (getByRole, getByLabelText)'',
     ''Avoid using data-testid unless necessary'',
     ''Use screen queries for better error messages'',
     ''Test accessibility as part of component tests'',
     ''Use userEvent for simulating user interactions'',
     ''Mock external API calls in tests'']\<close>

definition testingCypressGuidelines :: "string list" where
  \<open>testingCypressGuidelines = [
     ''Use Cypress for end-to-end testing'',
     ''Write tests from user perspective'',
     ''Use data-cy attributes for stable selectors'',
     ''Avoid testing implementation details'',
     ''Use custom commands for reusable actions'',
     ''Test critical user flows'',
     ''Use fixtures for test data'']\<close>

definition testingPlaywrightGuidelines :: "string list" where
  \<open>testingPlaywrightGuidelines = [
     ''Use Playwright for cross-browser testing'',
     ''Write tests that work across browsers'',
     ''Use page object model for maintainability'',
     ''Test accessibility with Playwright'',
     ''Use Playwright's auto-waiting features'',
     ''Test on multiple viewport sizes'']\<close>

definition testingPytestGuidelines :: "string list" where
  \<open>testingPytestGuidelines = [
     ''Use pytest for Python testing'',
     ''Use fixtures for test setup and dependencies'',
     ''Use parametrize for testing multiple inputs'',
     ''Use pytest markers for test organization'',
     ''Use pytest fixtures for dependency injection'',
     ''Follow pytest naming conventions'',
     ''Use pytest plugins for additional functionality'']\<close>

definition testingPythonGuidelines :: "string list" where
  \<open>testingPythonGuidelines = [
     ''Use unittest.mock for mocking'',
     ''Test both success and failure cases'',
     ''Use pytest-cov for coverage reporting'']\<close>

definition testingJUnitGuidelines :: "string list" where
  \<open>testingJUnitGuidelines = [
     ''Use JUnit for unit testing'',
     ''Use @BeforeEach and @AfterEach for setup'',
     ''Use assertions from AssertJ or Hamcrest'',
     ''Use @ParameterizedTest for multiple test cases'',
     ''Follow JUnit 5 best practices'']\<close>

definition testingOrganizationGuidelines :: "string list" where
  \<open>testingOrganizationGuidelines = [
     ''Organize tests to mirror source code structure'',
     ''Keep test files close to source files'',
     ''Use test utilities and helpers for common patterns'',
     ''Document complex test scenarios'',
     ''Review and refactor tests regularly'']\<close>

definition devopsGeneralGuidelines :: "string list" where
  \<open>devopsGeneralGuidelines = [
     ''Use version control for all code and configuration'',
     ''Implement proper branching strategies (GitFlow, GitHub Flow)'',
     ''Use semantic versioning for releases'',
     ''Keep dependencies updated and secure'',
     ''Use environment variables for configuration'',
     ''Never commit secrets or credentials'',
     ''Implement proper logging and monitoring'',
     ''Use infrastructure as code when possible'',
     ''Automate deployment processes'',
     ''Implement proper backup and disaster recovery'']\<close>

definition devopsGitHubActionsGuidelines :: "string list" where
  \<open>devopsGitHubActionsGuidelines = [
     ''Use GitHub Actions for CI/CD pipelines'',
     ''Organize workflows into reusable actions'',
     ''Use matrix builds for testing multiple versions'',
     ''Cache dependencies to speed up builds'',
     ''Run tests before deployment'',
     ''Use environment secrets for sensitive data'',
     ''Implement proper workflow permissions'',
     ''Use conditionals and job dependencies effectively'']\<close>

definition devopsPipelineGuidelines :: "string list" where
  \<open>devopsPipelineGuidelines = [
     ''Run tests in CI pipeline'',
     ''Lint and format code in CI'',
     ''Build and test on multiple platforms when needed'',
     ''Use deployment pipelines for different environments'',
     ''Implement proper rollback strategies'',
     ''Notify team of deployment status'']\<close>

definition devopsDockerGuidelines :: "string list" where
  \<open>devopsDockerGuidelines = [
     ''Use multi-stage builds to reduce image size'',
     ''Use .dockerignore to exclude unnecessary files'',
     ''Use specific version tags, avoid latest'',
     ''Run containers as non-root user'',
     ''Minimize number of layers in Dockerfile'',
     ''Use health checks in Dockerfiles'',
     ''Optimize Dockerfile for caching'',
     ''Scan images for vulnerabilities'']\<close>

definition devopsDockerComposeGuidelines :: "string list" where
  \<open>devopsDockerComposeGuidelines = [
     ''Use docker-compose for local development'',
     ''Define services and dependencies clearly'',
     ''Use environment files for configuration'',
     ''Use volumes for persistent data'',
     ''Define networks for service communication'']\<close>

definition devopsK8sGuidelines :: "string list" where
  \<open>devopsK8sGuidelines = [
     ''Use Kubernetes for container orchestration'',
     ''Define resources (CPU, memory) for pods'',
     ''Use ConfigMaps and Secrets for configuration'',
     ''Implement proper health checks (liveness, readiness)'',
     ''Use namespaces for environment separation'',
     ''Implement proper resource quotas'',
     ''Use HorizontalPodAutoscaler for scaling'',
     ''Implement proper service discovery'',
     ''Use Ingress for external access'',
     ''Monitor and log Kubernetes resources'']\<close>

definition devopsTerraformGuidelines :: "string list" where
  \<open>devopsTerraformGuidelines = [
     ''Use Terraform for infrastructure provisioning'',
     ''Organize Terraform code into modules'',
     ''Use remote state for team collaboration'',
     ''Version Terraform state files'',
     ''Use variables and outputs effectively'',
     ''Implement proper resource tagging'',
     ''Use Terraform workspaces for environments'',
     ''Review Terraform plans before applying'']\<close>

definition devopsEnvFilesGuidelines :: "string list" where
  \<open>devopsEnvFilesGuidelines = [
     ''Use .env.example as a template'',
     ''Never commit .env files'',
     ''Use different configurations for different environments'',
     ''Use secret management services in production'',
     ''Rotate secrets regularly'',
     ''Document required environment variables'']\<close>

definition devopsCloudGuidelines :: "TechStack \<Rightarrow> string list" where
  \<open>devopsCloudGuidelines techStack = [
     ''Configure for cloud providers: '' @ join '', '' (cloudProviders techStack),
     ''Use cloud-native services when appropriate'',
     ''Implement proper IAM and security policies'',
     ''Use cloud monitoring and logging services'',
     ''Implement auto-scaling when needed'',
     ''Use CDN for static assets'',
     ''Implement proper backup strategies'']\<close>

section \<open>Skills and the analyzers\<close>

text \<open>
  A skill as the analyzers build it. \<^verbatim>\<open>metadata\<close> is a small object whose shape
  differs per analyzer (absent for two of them); it is kept as a list of named values.
\<close>

datatype meta = MBool bool | MNum nat | MStr string | MStrs "string list"

record skill =
  name :: string
  displayName :: string
  description :: string
  guidelines :: "string list"
  category :: string
  techStack :: "string list"
  metadata :: "(string \<times> meta) list option"

text \<open>
  \<^verbatim>\<open>const x = await m; ...\<close> outside any inner \<^verbatim>\<open>try\<close>: a rejection leaves the
  rest of the block unexecuted.
\<close>

definition await :: "error + 'a \<Rightarrow> ('a \<Rightarrow> error + 'b) \<Rightarrow> error + 'b" where
  "await m k = (case m of Inl e \<Rightarrow> Inl e | Inr x \<Rightarrow> k x)"

text \<open>
  \<^verbatim>\<open>const packageJson = JSON.parse(await fs.readFile(...)); const deps = { ...packageJson.dependencies, ...packageJson.devDependencies }\<close>,
  the first two statements of every inner \<^verbatim>\<open>try\<close> that looks at the manifest.
\<close>

definition packageDeps :: "workspace \<Rightarrow> error + deps" where
  "packageDeps ws =
     (case packageJsonFile ws of
        Inl e \<Rightarrow> Inl e
      | Inr JsonNull \<Rightarrow> Inl (Error ''Cannot read properties of null'')
      | Inr (JsonValue pj) \<Rightarrow> Inr (spreadDeps pj))"

text \<open>
  The analyzers log through \<^verbatim>\<open>context.logger\<close>, which is \<^verbatim>\<open>console.log\<close> and
  \<^verbatim>\<open>console.error\<close>; no result depends on the log, and the model leaves it out.
  Every analyzer has the shape
  \<^verbatim>\<open>const skills = []; try { ... skills.push(skill); } catch (error) { logger.error(...) } return skills;\<close>
  The \<open>...Try\<close> function is the \<^verbatim>\<open>try\<close> block and yields the array \<^verbatim>\<open>skills\<close> at
  its end; the push is its last effect, so the array is still empty when the block throws.
\<close>

subsection \<open>Content scans\<close>

text \<open>
  Each scan loops over a slice of the candidate files and reads them. The second
  component of the result is the list of files the loop has passed to
  \<^verbatim>\<open>fs.readFile\<close>, in order; a read that throws is skipped by the empty
  \<^verbatim>\<open>catch\<close> and the loop goes on.
\<close>

text \<open>Security analyzer: \<^verbatim>\<open>for (const file of envUsage.slice(0, 10))\<close>, with \<^verbatim>\<open>break\<close>.\<close>

fun scanEnvVarsFrom :: "workspace \<Rightarrow> string list \<Rightarrow> string list \<Rightarrow> bool \<times> string list" where
  "scanEnvVarsFrom ws [] reads = (False, reads)"
| "scanEnvVarsFrom ws (file # rest) reads =
     (case readFile ws file of
        Inl e \<Rightarrow> scanEnvVarsFrom ws rest (reads @ [file])
      | Inr content \<Rightarrow>
          if str_includes content ''process.env'' \<or> str_includes content ''os.getenv''
             \<or> str_includes content ''os.environ''
          then (True, reads @ [file])
          else scanEnvVarsFrom ws rest (reads @ [file]))"

definition scanEnvVars :: "workspace \<Rightarrow> string list \<Rightarrow> bool \<times> string list" where
  "scanEnvVars ws envUsage = scanEnvVarsFrom ws (take 10 envUsage) []"

text \<open>Performance analyzer: \<^verbatim>\<open>for (const file of asyncFiles.slice(0, 20))\<close>, with \<^verbatim>\<open>break\<close>.\<close>

fun scanAsyncFrom :: "workspace \<Rightarrow> string list \<Rightarrow> string list \<Rightarrow> bool \<times> string list" where
  "scanAsyncFrom ws [] reads = (False, reads)"
| "scanAsyncFrom ws (file # rest) reads =
     (case readFile ws file of
        Inl e \<Rightarrow> scanAsyncFrom ws rest (reads @ [file])
      | Inr content \<Rightarrow>
          if str_includes content ''async'' \<or> str_includes content ''await''
             \<or> str_includes content ''Promise''
          then (True, reads @ [file])
          else scanAsyncFrom ws rest (reads @ [file]))"

definition scanAsync :: "workspace \<Rightarrow> string list \<Rightarrow> bool \<times> string list" where
  "scanAsync ws asyncFiles = scanAsyncFrom ws (take 20 asyncFiles) []"

text \<open>
  React analyzer: \<^verbatim>\<open>for (const file of reactFiles.slice(0, 30))\<close>. Five flags are
  collected, and the loop has no \<^verbatim>\<open>break\<close>.
\<close>

record hookFlags =
  usesHooks :: bool
  usesContext :: bool
  usesState :: bool
  usesEffect :: bool
  usesCustomHooks :: bool

fun scanHooksFrom ::
  "workspace \<Rightarrow> string list \<Rightarrow> hookFlags \<times> string list \<Rightarrow> hookFlags \<times> string list" where
  "scanHooksFrom ws [] st = st"
| "scanHooksFrom ws (file # rest) (fl, reads) =
     (case readFile ws file of
        Inl e \<Rightarrow> scanHooksFrom ws rest (fl, reads @ [file])
      | Inr content \<Rightarrow>
          scanHooksFrom ws rest
            (fl\<lparr>usesState := usesState fl \<or> str_includes content ''useState'',
                usesEffect := usesEffect fl \<or> str_includes content ''useEffect'',
                usesContext := usesContext fl \<or> str_includes content ''useContext''
                                 \<or> str_includes content ''Context'',
                usesHooks := usesHooks fl
                                 \<or> (str_includes content ''use'' \<and> str_includes content ''const''),
                usesCustomHooks := usesCustomHooks fl \<or> str_includes content ''function use''
                                 \<or> str_includes content ''const use''\<rparr>,
             reads @ [file]))"

definition scanHooks :: "workspace \<Rightarrow> string list \<Rightarrow> hookFlags \<times> string list" where
  "scanHooks ws reactFiles =
     scanHooksFrom ws (take 30 reactFiles)
       (\<lparr>usesHooks = False, usesContext = False, usesState = False, usesEffect = False,
         usesCustomHooks = False\<rparr>, [])"

text \<open>React analyzer: \<^verbatim>\<open>for (const file of stateFiles.slice(0, 10))\<close>, no \<^verbatim>\<open>break\<close>.\<close>

record stateFlags =
  usesRedux :: bool
  usesZustand :: bool
  usesMobX :: bool

fun scanStateFrom ::
  "workspace \<Rightarrow> string list \<Rightarrow> stateFlags \<times> string list \<Rightarrow> stateFlags \<times> string list" where
  "scanStateFrom ws [] st = st"
| "scanStateFrom ws (file # rest) (fl, reads) =
     (case readFile ws file of
        Inl e \<Rightarrow> scanStateFrom ws rest (fl, reads @ [file])
      | Inr content \<Rightarrow>
          scanStateFrom ws rest
            (fl\<lparr>usesRedux := usesRedux fl \<or> str_includes content ''redux''
                               \<or> str_includes content ''createSlice'',
                usesZustand := usesZustand fl \<or> str_includes content ''zustand''
                               \<or> str_includes content ''create('',
                usesMobX := usesMobX fl \<or> str_includes content ''mobx''
                               \<or> str_includes content ''observable''\<rparr>,
             reads @ [file]))"

definition scanState :: "workspace \<Rightarrow> string list \<Rightarrow> stateFlags \<times> string list" where
  "scanState ws stateFiles =
     scanStateFrom ws (take 10 stateFiles)
       (\<lparr>usesRedux = False, usesZustand = False, usesMobX = False\<rparr>, [])"

text \<open>API analyzer: \<^verbatim>\<open>for (const file of apiFiles.slice(0, 20))\<close>, no \<^verbatim>\<open>break\<close>.\<close>

record apiFlags =
  hasREST :: bool
  hasGraphQL :: bool

fun scanApiFrom ::
  "workspace \<Rightarrow> string list \<Rightarrow> apiFlags \<times> string list \<Rightarrow> apiFlags \<times> string list" where
  "scanApiFrom ws [] st = st"
| "scanApiFrom ws (file # rest) (fl, reads) =
     (case readFile ws file of
        Inl e \<Rightarrow> scanApiFrom ws rest (fl, reads @ [file])
      | Inr content \<Rightarrow>
          scanApiFrom ws rest
            (fl\<lparr>hasREST := hasREST fl \<or> str_includes content ''GET''
                             \<or> str_includes content ''POST'' \<or> str_includes content ''PUT''
                             \<or> str_includes content ''DELETE'',
                hasGraphQL := hasGraphQL fl \<or> str_includes content ''graphql''
                             \<or> str_includes content ''GraphQL'' \<or> str_includes content ''gql`''\<rparr>,
             reads @ [file]))"

definition scanApi :: "workspace \<Rightarrow> string list \<Rightarrow> apiFlags \<times> string list" where
  "scanApi ws apiFiles =
     scanApiFrom ws (take 20 apiFiles) (\<lparr>hasREST = False, hasGraphQL = False\<rparr>, [])"

subsection \<open>Security analyzer\<close>

definition securityTry :: "workspace \<Rightarrow> TechStack \<Rightarrow> error + skill list" where
  "securityTry ws ts =
     await (glob ws ''**/*{auth,login,security,oauth,jwt}*.{js,ts,jsx,tsx,py,java,go}'' stdIgnore)
       (\<lambda>authFiles.
     await (glob ws ''**/*{validate,sanitize,validator}*.{js,ts,jsx,tsx,py,java,go}'' stdIgnore)
       (\<lambda>validationFiles.
     await (glob ws ''**/*{security,helmet,cors}*.{js,ts,json}'' stdIgnore)
       (\<lambda>securityConfigs.
     await (glob ws ''**/.env*'' [])
       (\<lambda>envFiles.
     await (glob ws ''**/*.{js,ts,jsx,tsx,py}'' stdIgnore)
       (\<lambda>envUsage.
       let hasEnvVars = fst (scanEnvVars ws envUsage);
           securityGuidelines =
               (if hasNode ts then securityNodeGuidelines else [])
             @ (if hasPython ts then securityPythonGuidelines else [])
             @ (if length authFiles > 0 then securityAuthGuidelines else [])
             @ (if length validationFiles > 0 then securityValidationGuidelines else [])
             @ (if hasEnvVars then securityEnvVarsGuidelines else [])
       in Inr [\<lparr>name = ''security-best-practices'',
                 displayName = ''Security Best Practices'',
                 description = ''Guidelines for writing secure code based on codebase analysis'',
                 guidelines = securityGuidelines,
                 category = ''security'',
                 techStack = languages ts,
                 metadata = None\<rparr>])))))"

definition generateSecuritySkills :: "workspace \<Rightarrow> TechStack \<Rightarrow> error + skill list" where
  "generateSecuritySkills ws ts =
     Inr (case securityTry ws ts of Inl error \<Rightarrow> [] | Inr skills \<Rightarrow> skills)"

subsection \<open>Performance analyzer\<close>

definition performanceTry :: "workspace \<Rightarrow> TechStack \<Rightarrow> error + skill list" where
  "performanceTry ws ts =
     await (glob ws ''**/*{db,database,model,query}*.{js,ts,jsx,tsx,py,java,go}'' stdIgnore)
       (\<lambda>dbFiles.
     await (glob ws ''**/*{cache,redis,memcached}*.{js,ts,jsx,tsx,py,java,go}'' stdIgnore)
       (\<lambda>cacheFiles.
     await (glob ws ''**/*.{js,ts,jsx,tsx}'' stdIgnore)
       (\<lambda>asyncFiles.
       let hasAsyncPatterns = fst (scanAsync ws asyncFiles);
           performanceGuidelines =
               performanceGeneralGuidelines
             @ (if hasNode ts then performanceNodeGuidelines else [])
             @ (if hasReact ts then performanceReactGuidelines else [])
             @ (if hasTypeScript ts then performanceTypeScriptGuidelines else [])
             @ (if length dbFiles > 0 then performanceDbFilesGuidelines else [])
             @ (if length cacheFiles > 0 \<or> ''Redis'' \<in> set (databases ts)
                then performanceCacheGuidelines else [])
             @ (if hasAsyncPatterns then performanceAsyncGuidelines else [])
       in Inr [\<lparr>name = ''performance-optimization'',
                 displayName = ''Performance Optimization'',
                 description = ''Guidelines for writing performant code based on codebase patterns'',
                 guidelines = performanceGuidelines,
                 category = ''performance'',
                 techStack = languages ts,
                 metadata = None\<rparr>])))"

definition generatePerformanceSkills :: "workspace \<Rightarrow> TechStack \<Rightarrow> error + skill list" where
  "generatePerformanceSkills ws ts =
     Inr (case performanceTry ws ts of Inl error \<Rightarrow> [] | Inr skills \<Rightarrow> skills)"

subsection \<open>React analyzer\<close>

definition reactTry :: "workspace \<Rightarrow> TechStack \<Rightarrow> error + skill list" where
  "reactTry ws ts =
     await (glob ws ''**/*.{jsx,tsx}'' stdIgnore)
       (\<lambda>reactFiles.
       let hooks = fst (scanHooks ws reactFiles)
       in
     await (glob ws ''**/*{store,redux,zustand,mobx,recoil}*.{js,ts,jsx,tsx}'' stdIgnore)
       (\<lambda>stateFiles.
       let state = fst (scanState ws stateFiles);
           isNextJS = (''Next.js'' \<in> set (frameworks ts));
           reactGuidelines =
               reactCoreGuidelines
             @ (if usesState hooks then reactStateGuidelines else [])
             @ (if usesEffect hooks then reactEffectGuidelines else [])
             @ (if usesContext hooks then reactContextGuidelines else [])
             @ (if usesCustomHooks hooks then reactCustomHooksGuidelines else [])
             @ (if usesRedux state then reactReduxGuidelines else [])
             @ (if usesZustand state then reactZustandGuidelines else [])
             @ (if isNextJS then reactNextJSGuidelines else [])
             @ reactPerformanceGuidelines
             @ reactTestingGuidelines
       in Inr [\<lparr>name = ''react-best-practices'',
                 displayName = ''React Best Practices'',
                 description =
                   ''Guidelines for writing high-quality React code based on codebase patterns'',
                 guidelines = reactGuidelines,
                 category = ''react'',
                 techStack = [''JavaScript'', ''TypeScript''],
                 metadata = Some [
                   (''usesHooks'', MBool (usesHooks hooks)),
                   (''usesContext'', MBool (usesContext hooks)),
                   (''usesState'', MBool (usesState hooks)),
                   (''usesEffect'', MBool (usesEffect hooks)),
                   (''usesCustomHooks'', MBool (usesCustomHooks hooks)),
                   (''stateManagement'',
                      MStr (if usesRedux state then ''Redux''
                            else if usesZustand state then ''Zustand''
                            else if usesMobX state then ''MobX'' else ''Context/State'')),
                   (''framework'', MStr (if isNextJS then ''Next.js'' else ''React''))]\<rparr>]))"

text \<open>The guard \<^verbatim>\<open>if (!techStack.hasReact) return skills\<close> stands before the \<^verbatim>\<open>try\<close>.\<close>

definition generateReactSkills :: "workspace \<Rightarrow> TechStack \<Rightarrow> error + skill list" where
  "generateReactSkills ws ts =
     (if \<not> hasReact ts then Inr []
      else Inr (case reactTry ws ts of Inl error \<Rightarrow> [] | Inr skills \<Rightarrow> skills))"

subsection \<open>Backend analyzer\<close>

text \<open>Here the guard \<^verbatim>\<open>if (backendFiles.length === 0) return skills\<close> is inside the \<^verbatim>\<open>try\<close>.\<close>

definition backendTry :: "workspace \<Rightarrow> TechStack \<Rightarrow> error + skill list" where
  "backendTry ws ts =
     await (glob ws ''**/*{server,api,route,controller,service}*.{js,ts,py,java,go}''
              (stdIgnore @ [''**/client/**'', ''**/frontend/**'']))
       (\<lambda>backendFiles.
       if length backendFiles = 0 then Inr []
       else
     await (glob ws ''**/*{api,route,endpoint}*.{js,ts,py,java,go}'' stdIgnore)
       (\<lambda>apiFiles.
     await (glob ws ''**/*{middleware,interceptor}*.{js,ts,py,java,go}'' stdIgnore)
       (\<lambda>middlewareFiles.
       let backendGuidelines =
               (if hasNode ts \<and>
                   list_ex (\<lambda>f. f \<in> set [''Express'', ''NestJS'', ''Fastify'', ''Koa''])
                     (frameworks ts)
                then backendNodeGuidelines
                   @ (if ''Express'' \<in> set (frameworks ts) then backendExpressGuidelines else [])
                   @ (if ''NestJS'' \<in> set (frameworks ts) then backendNestJSGuidelines else [])
                else [])
             @ (if hasPython ts
                then backendPythonGuidelines
                   @ (if ''Django'' \<in> set (frameworks ts) then backendDjangoGuidelines else [])
                   @ (if ''Flask'' \<in> set (frameworks ts) then backendFlaskGuidelines else [])
                   @ (if ''FastAPI'' \<in> set (frameworks ts) then backendFastAPIGuidelines else [])
                else [])
             @ (if hasJava ts then backendJavaGuidelines else [])
             @ (if hasGo ts then backendGoGuidelines else [])
             @ backendGeneralGuidelines
             @ (if length middlewareFiles > 0 then backendMiddlewareGuidelines else [])
       in Inr [\<lparr>name = ''backend-best-practices'',
                 displayName = ''Backend Best Practices'',
                 description =
                   ''Guidelines for writing high-quality backend code based on detected frameworks'',
                 guidelines = backendGuidelines,
                 category = ''backend'',
                 techStack =
                   filter (\<lambda>l. l \<in> set [''JavaScript'', ''TypeScript'', ''Python'', ''Java'', ''Go''])
                     (languages ts),
                 metadata = Some [
                   (''frameworks'', MStrs (frameworks ts)),
                   (''hasMiddleware'', MBool (length middlewareFiles > 0)),
                   (''apiFiles'', MNum (length apiFiles))]\<rparr>])))"

definition generateBackendSkills :: "workspace \<Rightarrow> TechStack \<Rightarrow> error + skill list" where
  "generateBackendSkills ws ts =
     Inr (case backendTry ws ts of Inl error \<Rightarrow> [] | Inr skills \<Rightarrow> skills)"

subsection \<open>Frontend analyzer\<close>

text \<open>The manifest is read twice, in two separate inner \<^verbatim>\<open>try\<close> blocks.\<close>

definition frontendTry :: "workspace \<Rightarrow> TechStack \<Rightarrow> error + skill list" where
  "frontendTry ws ts =
     await (glob ws ''**/*.{js,jsx,ts,tsx,css,scss,sass,less}''
              (stdIgnore @ [''**/server/**'', ''**/backend/**'']))
       (\<lambda>frontendFiles.
     await (glob ws ''**/*.{css,scss,sass,less}'' stdIgnore)
       (\<lambda>cssFiles.
       let (usesTailwind, usesStyledComponents, usesCSSModules) =
             (case packageDeps ws of
                Inl e \<Rightarrow> (False, False, False)
              | Inr deps \<Rightarrow> (truthy deps ''tailwindcss'', truthy deps ''styled-components'',
                             truthy deps ''css-modules''));
           (usesMaterialUI, usesChakraUI, usesAntDesign) =
             (case packageDeps ws of
                Inl e \<Rightarrow> (False, False, False)
              | Inr deps \<Rightarrow> (truthy deps ''@mui/material'' \<or> truthy deps ''@material-ui/core'',
                             truthy deps ''@chakra-ui/react'', truthy deps ''antd''));
           frontendGuidelines =
               frontendGeneralGuidelines
             @ (if hasTypeScript ts then frontendTypeScriptGuidelines else [])
             @ (if usesTailwind then frontendTailwindGuidelines else [])
             @ (if usesStyledComponents then frontendStyledComponentsGuidelines else [])
             @ (if usesCSSModules then frontendCSSModulesGuidelines else [])
             @ (if usesMaterialUI then frontendMaterialUIGuidelines else [])
             @ (if usesChakraUI then frontendChakraUIGuidelines else [])
             @ (if usesAntDesign then frontendAntDesignGuidelines else [])
             @ frontendPerformanceGuidelines
             @ frontendTestingGuidelines
       in Inr [\<lparr>name = ''frontend-best-practices'',
                 displayName = ''Frontend Best Practices'',
                 description = ''Guidelines for writing high-quality frontend code'',
                 guidelines = frontendGuidelines,
                 category = ''frontend'',
                 techStack = languages ts,
                 metadata = Some [
                   (''cssFramework'',
                      MStr (if usesTailwind then ''Tailwind''
                            else if usesStyledComponents then ''Styled Components''
                            else if usesCSSModules then ''CSS Modules'' else ''Standard CSS'')),
                   (''componentLibrary'',
                      MStr (if usesMaterialUI then ''Material-UI''
                            else if usesChakraUI then ''Chakra UI''
                            else if usesAntDesign then ''Ant Design'' else ''None''))]\<rparr>]))"

definition generateFrontendSkills :: "workspace \<Rightarrow> TechStack \<Rightarrow> error + skill list" where
  "generateFrontendSkills ws ts =
     Inr (case frontendTry ws ts of Inl error \<Rightarrow> [] | Inr skills \<Rightarrow> skills)"

subsection \<open>Database analyzer\<close>

definition databaseTry :: "workspace \<Rightarrow> TechStack \<Rightarrow> error + skill list" where
  "databaseTry ws ts =
     await (glob ws ''**/*{model,schema,migration,db,database}*.{js,ts,py,java,go}'' stdIgnore)
       (\<lambda>dbFiles.
       let (usesMongoose, usesSequelize, usesTypeORM, usesPrisma) =
             (case packageDeps ws of
                Inl e \<Rightarrow> (False, False, False, False)
              | Inr deps \<Rightarrow> (truthy deps ''mongoose'', truthy deps ''sequelize'',
                             truthy deps ''typeorm'', truthy deps ''@prisma/client''));
           usesSQLAlchemy =
             (case readFile ws ''requirements.txt'' of
                Inl e \<Rightarrow> False
              | Inr requirements \<Rightarrow> str_includes requirements ''sqlalchemy'');
           databaseGuidelines =
               (if ''MongoDB'' \<in> set (databases ts) \<or> usesMongoose
                then databaseMongoDBGuidelines else [])
             @ (if list_ex (\<lambda>db. db \<in> set [''SQL'', ''PostgreSQL'', ''MySQL'']) (databases ts)
                then databaseSQLGuidelines
                   @ (if usesPrisma then databasePrismaGuidelines else [])
                   @ (if usesSequelize then databaseSequelizeGuidelines else [])
                   @ (if usesTypeORM then databaseTypeORMGuidelines else [])
                   @ (if usesSQLAlchemy then databaseSQLAlchemyGuidelines else [])
                else [])
             @ (if ''Redis'' \<in> set (databases ts) then databaseRedisGuidelines else [])
             @ databaseGeneralGuidelines
       in Inr [\<lparr>name = ''database-best-practices'',
                 displayName = ''Database Best Practices'',
                 description =
                   ''Guidelines for working with databases based on detected database technologies'',
                 guidelines = databaseGuidelines,
                 category = ''database'',
                 techStack = languages ts,
                 metadata = Some [
                   (''databases'', MStrs (databases ts)),
                   (''orm'',
                      MStr (if usesPrisma then ''Prisma''
                            else if usesMongoose then ''Mongoose''
                            else if usesSequelize then ''Sequelize''
                            else if usesTypeORM then ''TypeORM''
                            else if usesSQLAlchemy then ''SQLAlchemy'' else ''None''))]\<rparr>])"

text \<open>The guard \<^verbatim>\<open>if (techStack.databases.length === 0) return skills\<close> stands before the \<^verbatim>\<open>try\<close>.\<close>

definition generateDatabaseSkills :: "workspace \<Rightarrow> TechStack \<Rightarrow> error + skill list" where
  "generateDatabaseSkills ws ts =
     (if length (databases ts) = 0 then Inr []
      else Inr (case databaseTry ws ts of Inl error \<Rightarrow> [] | Inr skills \<Rightarrow> skills))"

subsection \<open>API analyzer\<close>

definition apiTry :: "workspace \<Rightarrow> TechStack \<Rightarrow> error + skill list" where
  "apiTry ws ts =
     await (glob ws ''**/*{api,route,endpoint,controller}*.{js,ts,py,java,go}'' stdIgnore)
       (\<lambda>apiFiles.
       let scanned = fst (scanApi ws apiFiles);
           flags =
             (case packageDeps ws of
                Inl e \<Rightarrow> scanned
              | Inr deps \<Rightarrow>
                  if truthy deps ''apollo-server'' \<or> truthy deps ''graphql''
                     \<or> truthy deps ''@apollo/server''
                  then scanned\<lparr>hasGraphQL := True\<rparr> else scanned);
           apiGuidelines =
               (if hasREST flags \<or> length apiFiles > 0 then apiRESTGuidelines else [])
             @ (if hasGraphQL flags then apiGraphQLGuidelines else [])
             @ apiGeneralGuidelines
       in Inr [\<lparr>name = ''api-best-practices'',
                 displayName = ''API Best Practices'',
                 description = ''Guidelines for designing and implementing APIs'',
                 guidelines = apiGuidelines,
                 category = ''api'',
                 techStack = languages ts,
                 metadata = Some [
                   (''hasREST'', MBool (hasREST flags)),
                   (''hasGraphQL'', MBool (hasGraphQL flags)),
                   (''apiFilesCount'', MNum (length apiFiles))]\<rparr>])"

definition generateAPISkills :: "workspace \<Rightarrow> TechStack \<Rightarrow> error + skill list" where
  "generateAPISkills ws ts =
     Inr (case apiTry ws ts of Inl error \<Rightarrow> [] | Inr skills \<Rightarrow> skills)"

subsection \<open>Testing analyzer\<close>

text \<open>\<^verbatim>\<open>usesJUnit\<close> is declared \<^verbatim>\<open>false\<close> and never assigned.\<close>

definition testingTry :: "workspace \<Rightarrow> TechStack \<Rightarrow> error + skill list" where
  "testingTry ws ts =
     await (glob ws ''**/*{test,spec}*.{js,ts,jsx,tsx,py,java,go}'' stdIgnore)
       (\<lambda>testFiles.
       let (usesJest, usesVitest, usesMocha, usesReactTestingLibrary, usesCypress,
            usesPlaywright) =
             (case packageDeps ws of
                Inl e \<Rightarrow> (False, False, False, False, False, False)
              | Inr deps \<Rightarrow> (truthy deps ''jest'', truthy deps ''vitest'', truthy deps ''mocha'',
                             truthy deps ''@testing-library/react'', truthy deps ''cypress'',
                             truthy deps ''@playwright/test''));
           usesPytest =
             (case readFile ws ''requirements.txt'' of
                Inl e \<Rightarrow> False
              | Inr requirements \<Rightarrow> str_includes requirements ''pytest'');
           usesJUnit = False;
           testingGuidelines =
               testingGeneralGuidelines
             @ (if hasNode ts
                then (if usesJest then testingJestGuidelines else [])
                   @ (if usesVitest then testingVitestGuidelines else [])
                   @ (if usesMocha then testingMochaGuidelines else [])
                   @ (if usesReactTestingLibrary \<and> hasReact ts
                      then testingReactTestingLibraryGuidelines else [])
                   @ (if usesCypress then testingCypressGuidelines else [])
                   @ (if usesPlaywright then testingPlaywrightGuidelines else [])
                else [])
             @ (if hasPython ts
                then (if usesPytest then testingPytestGuidelines else [])
                   @ testingPythonGuidelines
                else [])
             @ (if hasJava ts
                then (if usesJUnit then testingJUnitGuidelines else [])
                else [])
             @ testingOrganizationGuidelines
       in Inr [\<lparr>name = ''testing-best-practices'',
                 displayName = ''Testing Best Practices'',
                 description =
                   ''Guidelines for writing effective tests based on detected testing frameworks'',
                 guidelines = testingGuidelines,
                 category = ''testing'',
                 techStack = languages ts,
                 metadata = Some [
                   (''testFilesCount'', MNum (length testFiles)),
                   (''frameworks'',
                      MStrs (pushed usesJest ''Jest''
                           @ pushed usesVitest ''Vitest''
                           @ pushed usesMocha ''Mocha''
                           @ pushed usesPytest ''pytest''
                           @ pushed usesJUnit ''JUnit''
                           @ pushed usesReactTestingLibrary ''React Testing Library''
                           @ pushed usesCypress ''Cypress''
                           @ pushed usesPlaywright ''Playwright''))]\<rparr>])"

definition generateTestingSkills :: "workspace \<Rightarrow> TechStack \<Rightarrow> error + skill list" where
  "generateTestingSkills ws ts =
     Inr (case testingTry ws ts of Inl error \<Rightarrow> [] | Inr skills \<Rightarrow> skills)"

subsection \<open>DevOps analyzer\<close>

definition devopsTry :: "workspace \<Rightarrow> TechStack \<Rightarrow> error + skill list" where
  "devopsTry ws ts =
     await (glob ws ''**/.github/workflows/*.yml'' [])
       (\<lambda>cicdFiles.
       let hasGitHubActions = (length cicdFiles > 0);
           hasDocker = (case access ws ''Dockerfile'' of Inr u \<Rightarrow> True | Inl e \<Rightarrow> False);
           hasDockerCompose =
             (case access ws ''docker-compose.yml'' of
                Inr u \<Rightarrow> True
              | Inl e \<Rightarrow>
                  (case access ws ''docker-compose.yaml'' of Inr u \<Rightarrow> True | Inl e2 \<Rightarrow> False))
       in
     await (glob ws ''**/*{k8s,kubernetes}*.{yaml,yml}'' [])
       (\<lambda>k8sFiles.
       let hasK8s = (length k8sFiles > 0)
       in
     await (glob ws ''**/*.{tf,tf.json}'' [])
       (\<lambda>iacFiles.
       let hasTerraform = (length iacFiles > 0)
       in
     await (glob ws ''**/.env*'' [])
       (\<lambda>envFiles.
       let hasEnvFiles = (length envFiles > 0);
           devopsGuidelines =
               devopsGeneralGuidelines
             @ (if hasGitHubActions then devopsGitHubActionsGuidelines else [])
             @ devopsPipelineGuidelines
             @ (if hasDocker then devopsDockerGuidelines else [])
             @ (if hasDockerCompose then devopsDockerComposeGuidelines else [])
             @ (if hasK8s then devopsK8sGuidelines else [])
             @ (if hasTerraform then devopsTerraformGuidelines else [])
             @ (if hasEnvFiles then devopsEnvFilesGuidelines else [])
             @ (if length (cloudProviders ts) > 0 then devopsCloudGuidelines ts else [])
       in Inr [\<lparr>name = ''devops-best-practices'',
                 displayName = ''DevOps Best Practices'',
                 description =
                   ''Guidelines for DevOps and deployment based on detected infrastructure'',
                 guidelines = devopsGuidelines,
                 category = ''devops'',
                 techStack = languages ts,
                 metadata = Some [
                   (''hasDocker'', MBool hasDocker),
                   (''hasDockerCompose'', MBool hasDockerCompose),
                   (''hasK8s'', MBool hasK8s),
                   (''hasTerraform'', MBool hasTerraform),
                   (''hasGitHubActions'', MBool hasGitHubActions),
                   (''cloudProviders'', MStrs (cloudProviders ts))]\<rparr>]))))"

definition generateDevOpsSkills :: "workspace \<Rightarrow> TechStack \<Rightarrow> error + skill list" where
  "generateDevOpsSkills ws ts =
     Inr (case devopsTry ws ts of Inl error \<Rightarrow> [] | Inr skills \<Rightarrow> skills)"

section \<open>The entry point (\<^verbatim>\<open>main\<close> of generate-skills.js)\<close>

text \<open>
  A registered agent is a name and a task. The tasks are independent of each other and
  only read the workspace, so what a task settles to does not depend on the
  interleaving; an agent is kept as its name and that outcome (\<open>Inl\<close>: the task threw or
  its promise rejected).
\<close>

type_synonym agent = "string \<times> (error + skill list)"

text \<open>The array \<^verbatim>\<open>agentPromises\<close>, in source order.\<close>

definition agentPromises :: "workspace \<Rightarrow> TechStack \<Rightarrow> agent list" where
  "agentPromises ws ts = [
     (''Security Analyzer'', generateSecuritySkills ws ts),
     (''Performance Analyzer'', generatePerformanceSkills ws ts),
     (''React Analyzer'', generateReactSkills ws ts),
     (''Backend Analyzer'', generateBackendSkills ws ts),
     (''Frontend Analyzer'', generateFrontendSkills ws ts),
     (''Database Analyzer'', generateDatabaseSkills ws ts),
     (''API Analyzer'', generateAPISkills ws ts),
     (''Testing Analyzer'', generateTestingSkills ws ts),
     (''DevOps Analyzer'', generateDevOpsSkills ws ts)]"

text \<open>What a promise settles to.\<close>

datatype 'a settled = Fulfilled 'a | Rejected error

text \<open>The value the per-agent wrapper returns.\<close>

record agentValue =
  agentName :: string
  agentSkills :: "skill list"
  agentSuccess :: bool
  agentError :: "string option"

text \<open>
  The wrapper \<^verbatim>\<open>async ({ name, task }) => { try { ... } catch (error) { ... } }\<close>
  that \<^verbatim>\<open>agentPromises.map\<close> applies to every agent.
\<close>

definition runAgent :: "agent \<Rightarrow> agentValue settled" where
  "runAgent a =
     (case snd a of
        Inr skills \<Rightarrow>
          Fulfilled \<lparr>agentName = fst a, agentSkills = skills, agentSuccess = True,
                     agentError = None\<rparr>
      | Inl error \<Rightarrow>
          Fulfilled \<lparr>agentName = fst a, agentSkills = [], agentSuccess = False,
                     agentError = Some (message error)\<rparr>)"

text \<open>
  \<^verbatim>\<open>Promise.allSettled\<close>. The promises settle in some order in time; promise \<open>i\<close>
  settles after \<open>delays ! i\<close> ticks (at once when the list is shorter), promises of
  equal delay in launch order. When promise \<open>i\<close> settles, its result is stored in slot
  \<open>i\<close> of the result array, and the array is delivered once no slot is empty.
\<close>

definition completionOrder :: "nat list \<Rightarrow> nat \<Rightarrow> nat list" where
  "completionOrder delays n =
     sort_key (\<lambda>i. if i < length delays then delays ! i else 0) [0..<n]"

definition allSettled :: "nat list \<Rightarrow> 'a settled list \<Rightarrow> 'a settled list option" where
  "allSettled delays promises =
     those (fold (\<lambda>i slots. slots[i := Some (promises ! i)])
              (completionOrder delays (length promises))
              (replicate (length promises) None))"

record summaryEntry =
  agent :: string
  skillsGenerated :: nat
  status :: string
  error :: "string option"

text \<open>
  The loop \<^verbatim>\<open>for (const result of results)\<close> that fills \<^verbatim>\<open>allSkills\<close> and
  \<^verbatim>\<open>summary\<close>.
\<close>

fun collect ::
  "agentValue settled list \<Rightarrow> skill list \<times> summaryEntry list \<Rightarrow> skill list \<times> summaryEntry list"
  where
  "collect [] acc = acc"
| "collect (result # rest) (allSkills, summary) =
     (case result of
        Fulfilled v \<Rightarrow>
          if agentSuccess v
          then collect rest
                 (allSkills @ agentSkills v,
                  summary @ [\<lparr>agent = agentName v, skillsGenerated = length (agentSkills v),
                               status = ''success'', error = None\<rparr>])
          else collect rest
                 (allSkills,
                  summary @ [\<lparr>agent = agentName v, skillsGenerated = 0, status = ''failed'',
                               error = agentError v\<rparr>])
      | Rejected reason \<Rightarrow>
          collect rest
            (allSkills,
             summary @ [\<lparr>agent = ''Unknown'', skillsGenerated = 0, status = ''failed'',
                          error = Some (message reason)\<rparr>]))"

text \<open>
  The sink is the list of the calls made to \<^verbatim>\<open>saveSkill\<close> so far, each with the skill
  it was given and whether it succeeded.
\<close>

type_synonym sink = "(skill \<times> bool) list"

text \<open>
  Modelled from the spec: \<^verbatim>\<open>saveSkill\<close> of \<^verbatim>\<open>utils/skill-writer.js\<close>, which is not
  among the sources. The persistence interface "returns success/failure without
  throwing" and a failure is "recorded per skill": a call appends the skill and its
  result to the sink and returns the result. The calls that fail are given by their
  position in the run, \<open>failing\<close>.
\<close>

definition saveSkill :: "nat set \<Rightarrow> skill \<Rightarrow> sink \<Rightarrow> bool \<times> sink" where
  "saveSkill failing skill sink =
     (let saved = (length sink \<notin> failing) in (saved, sink @ [(skill, saved)]))"

text \<open>The loop \<^verbatim>\<open>for (const skill of allSkills) await saveSkill(skill, ...)\<close>.\<close>

definition saveAll :: "nat set \<Rightarrow> skill list \<Rightarrow> sink" where
  "saveAll failing allSkills = fold (\<lambda>skill sink. snd (saveSkill failing skill sink)) allSkills []"

record analysisReport =
  reportTechStack :: TechStack
  totalSkillsGenerated :: nat
  agents :: "summaryEntry list"
  timestamp :: string

record mainResult =
  success :: bool
  report :: analysisReport
  skills :: "skill list"

text \<open>
  Everything \<^verbatim>\<open>main\<close> does once the tech stack and the agent list exist: fan out, join,
  collect, save, report. \<open>now\<close> is \<^verbatim>\<open>new Date().toISOString()\<close>. The result is \<open>None\<close>
  when \<^verbatim>\<open>Promise.allSettled\<close> never delivers.
\<close>

definition orchestrate ::
  "agent list \<Rightarrow> TechStack \<Rightarrow> nat list \<Rightarrow> nat set \<Rightarrow> string \<Rightarrow> (mainResult \<times> sink) option"
  where
  "orchestrate registered ts delays failing now =
     (case allSettled delays (map runAgent registered) of
        None \<Rightarrow> None
      | Some results \<Rightarrow>
          let (allSkills, summary) = collect results ([], []);
              sink = saveAll failing allSkills;
              rep = \<lparr>reportTechStack = ts, totalSkillsGenerated = length allSkills,
                     agents = summary, timestamp = now\<rparr>
          in Some (\<lparr>success = True, report = rep, skills = allSkills\<rparr>, sink))"

text \<open>
  How a run ends: \<^verbatim>\<open>main\<close> returns its result object, or the top-level \<^verbatim>\<open>catch\<close>
  calls \<^verbatim>\<open>process.exit(1)\<close>.
\<close>

datatype outcome = Returned mainResult | Exited nat

definition main :: "workspace \<Rightarrow> nat list \<Rightarrow> nat set \<Rightarrow> string \<Rightarrow> (outcome \<times> sink) option"
  where
  "main ws delays failing now =
     (case analyzeTechStack ws of
        Inl e \<Rightarrow> Some (Exited 1, [])
      | Inr ts \<Rightarrow>
          (case orchestrate (agentPromises ws ts) ts delays failing now of
             None \<Rightarrow> None
           | Some (result, sink) \<Rightarrow> Some (Returned result, sink)))"

section \<open>Vocabulary of the properties\<close>

text \<open>
  The two probes that both record the database identifier \<^verbatim>\<open>SQL\<close>: a Node ORM among
  the manifest's dependencies, and \<^verbatim>\<open>sqlalchemy\<close> in \<^verbatim>\<open>requirements.txt\<close>.
\<close>

definition nodeOrmDetected :: "workspace \<Rightarrow> bool" where
  "nodeOrmDetected ws =
     (case packageJsonFile ws of
        Inl e \<Rightarrow> False
      | Inr JsonNull \<Rightarrow> False
      | Inr (JsonValue pj) \<Rightarrow>
          truthy (spreadDeps pj) ''sequelize'' \<or> truthy (spreadDeps pj) ''typeorm'')"

definition sqlalchemyDetected :: "workspace \<Rightarrow> bool" where
  "sqlalchemyDetected ws =
     (case access ws ''requirements.txt'' of
        Inl e \<Rightarrow> False
      | Inr u \<Rightarrow>
          (case readFile ws ''requirements.txt'' of
             Inl e \<Rightarrow> False
           | Inr requirements \<Rightarrow> str_includes requirements ''sqlalchemy''))"

text \<open>
  A workspace with \<^verbatim>\<open>sequelize\<close> in \<^verbatim>\<open>package.json\<close> and \<^verbatim>\<open>sqlalchemy\<close> in
  \<^verbatim>\<open>requirements.txt\<close>, and nothing else.
\<close>

definition sqlTwice :: workspace where
  "sqlTwice = \<lparr>
     packageJsonFile =
       Inr (JsonValue \<lparr>dependencies = Some [''sequelize'' \<mapsto> True], devDependencies = None\<rparr>),
     readFile = (\<lambda>p. if p = ''requirements.txt'' then Inr ''sqlalchemy'' else Inl (Error ''ENOENT'')),
     access = (\<lambda>p. if p = ''requirements.txt'' then Inr () else Inl (Error ''ENOENT'')),
     glob = (\<lambda>pat ign. Inr [])\<rparr>"

text \<open>
  The spec's \<^verbatim>\<open>AnalyzerOutcome\<close> of an agent, in its words: the analyzer's name, a status
  that is success or failed, the skill count (zero on failure), and an error that is
  present if and only if the analyzer failed; and the skills the outcome carries (none
  on failure).
\<close>

fun outcomeEntry :: "agent \<Rightarrow> summaryEntry" where
  "outcomeEntry (n, Inr produced) =
     \<lparr>agent = n, skillsGenerated = length produced, status = ''success'', error = None\<rparr>"
| "outcomeEntry (n, Inl e) =
     \<lparr>agent = n, skillsGenerated = 0, status = ''failed'', error = Some (message e)\<rparr>"

fun outcomeSkills :: "agent \<Rightarrow> skill list" where
  "outcomeSkills (n, Inr produced) = produced"
| "outcomeSkills (n, Inl e) = []"

text \<open>
  A workspace root that does not exist: no file can be read or accessed, and
  \<^verbatim>\<open>glob\<close> finds nothing under it.
\<close>

definition missingRoot :: workspace where
  "missingRoot = \<lparr>
     packageJsonFile = Inl (Error ''ENOENT''),
     readFile = (\<lambda>p. Inl (Error ''ENOENT'')),
     access = (\<lambda>p. Inl (Error ''ENOENT'')),
     glob = (\<lambda>pat ign. Inr [])\<rparr>"

text \<open>Three agents of which the second throws, for trying the orchestration.\<close>

definition sampleSkill :: skill where
  "sampleSkill = \<lparr>name = ''sample'', displayName = ''Sample'', description = ''A skill'',
     guidelines = [''Do this''], category = ''testing'', techStack = [], metadata = None\<rparr>"

definition threeAgents :: "agent list" where
  "threeAgents = [(''First'', Inr [sampleSkill]), (''Second'', Inl (Error ''boom'')),
                  (''Third'', Inr [sampleSkill, sampleSkill])]"

text \<open>
  A file is a positive match of the environment-variable scan, or of the async-pattern
  scan, when it can be read and contains one of the scan's markers.
\<close>

definition envMarker :: "workspace \<Rightarrow> string \<Rightarrow> bool" where
  "envMarker ws file =
     (case readFile ws file of
        Inl e \<Rightarrow> False
      | Inr content \<Rightarrow>
          str_includes content ''process.env'' \<or> str_includes content ''os.getenv''
          \<or> str_includes content ''os.environ'')"

definition asyncMarker :: "workspace \<Rightarrow> string \<Rightarrow> bool" where
  "asyncMarker ws file =
     (case readFile ws file of
        Inl e \<Rightarrow> False
      | Inr content \<Rightarrow>
          str_includes content ''async'' \<or> str_includes content ''await''
          \<or> str_includes content ''Promise'')"

text \<open>
  The reads of a loop that stops at its first positive match: the candidates before
  the match, and the match itself.
\<close>

definition upToFirst :: "('a \<Rightarrow> bool) \<Rightarrow> 'a list \<Rightarrow> 'a list" where
  "upToFirst hit xs = takeWhile (\<lambda>x. \<not> hit x) xs @ take 1 (dropWhile (\<lambda>x. \<not> hit x) xs)"

text \<open>A workspace in which every file reads as the one line \<^verbatim>\<open>const [n, setN] = useState(0); await f()\<close>.\<close>

definition hooksEverywhere :: workspace where
  "hooksEverywhere = \<lparr>
     packageJsonFile = Inl (Error ''ENOENT''),
     readFile = (\<lambda>p. Inr ''const [n, setN] = useState(0); await f()''),
     access = (\<lambda>p. Inl (Error ''ENOENT'')),
     glob = (\<lambda>pat ign. Inr [''a.jsx'', ''b.jsx''])\<rparr>"

text \<open>An existing workspace that holds no file at all.\<close>

definition emptyWorkspace :: workspace where
  "emptyWorkspace = \<lparr>
     packageJsonFile = Inl (Error ''ENOENT''),
     readFile = (\<lambda>p. Inl (Error ''ENOENT'')),
     access = (\<lambda>p. Inl (Error ''ENOENT'')),
     glob = (\<lambda>pat ign. Inr [])\<rparr>"



text \<open>
  What an observer of a finished run sees: the code \<^verbatim>\<open>process.exit\<close> was called with,
  if it was, and the report, if \<^verbatim>\<open>main\<close> returned one.
\<close>

fun exitCode :: "(outcome \<times> sink) option \<Rightarrow> nat option" where
  "exitCode (Some (Exited n, sink)) = Some n"
| "exitCode (Some (Returned result, sink)) = None"
| "exitCode None = None"

fun producedReport :: "(outcome \<times> sink) option \<Rightarrow> analysisReport option" where
  "producedReport (Some (Returned result, sink)) = Some (report result)"
| "producedReport (Some (Exited n, sink)) = None"
| "producedReport None = None"

section \<open>Facts about tech stack detection\<close>

lemmas probe_defs = probePackageJson_def probeRequirements_def probeJava_def probeGo_def
  probeRust_def probeCloud_def probeDocker_def probeKubernetes_def

lemma subseq_pushed: "subseq (pushed c x) [x]"
  by (simp add: pushed_def)

lemma subseq_pushed_Cons: "subseq zs ys \<Longrightarrow> subseq (pushed c x @ zs) (x # ys)"
  by (cases c) (simp_all add: pushed_def list_emb_Cons)

lemma subseq_distinct: "subseq xs ys \<Longrightarrow> distinct ys \<Longrightarrow> distinct xs"
  by (induction rule: list_emb.induct) (auto dest: list_emb_set)

text \<open>Which probe leaves which field alone.\<close>

lemma frameworks_kept:
  "frameworks (probeJava ws ts) = frameworks ts"
  "frameworks (probeGo ws ts) = frameworks ts"
  "frameworks (probeRust ws ts) = frameworks ts"
  "frameworks (probeCloud ws ts) = frameworks ts"
  "frameworks (probeDocker ws ts) = frameworks ts"
  "frameworks (probeKubernetes ws ts) = frameworks ts"
  by (simp_all add: probe_defs split: sum.splits)

lemma databases_kept:
  "databases (probeJava ws ts) = databases ts"
  "databases (probeGo ws ts) = databases ts"
  "databases (probeRust ws ts) = databases ts"
  "databases (probeCloud ws ts) = databases ts"
  "databases (probeDocker ws ts) = databases ts"
  "databases (probeKubernetes ws ts) = databases ts"
  by (simp_all add: probe_defs split: sum.splits)

lemma buildTools_kept:
  "buildTools (probeRequirements ws ts) = buildTools ts"
  "buildTools (probeJava ws ts) = buildTools ts"
  "buildTools (probeGo ws ts) = buildTools ts"
  "buildTools (probeRust ws ts) = buildTools ts"
  "buildTools (probeCloud ws ts) = buildTools ts"
  "buildTools (probeKubernetes ws ts) = buildTools ts"
  by (simp_all add: probe_defs Let_def split: sum.splits)

lemma packageManagers_kept:
  "packageManagers (probeGo ws ts) = packageManagers ts"
  "packageManagers (probeRust ws ts) = packageManagers ts"
  "packageManagers (probeCloud ws ts) = packageManagers ts"
  "packageManagers (probeDocker ws ts) = packageManagers ts"
  "packageManagers (probeKubernetes ws ts) = packageManagers ts"
  by (simp_all add: probe_defs split: sum.splits)

lemma cloudProviders_kept:
  "cloudProviders (probePackageJson ws ts) = cloudProviders ts"
  "cloudProviders (probeRequirements ws ts) = cloudProviders ts"
  "cloudProviders (probeJava ws ts) = cloudProviders ts"
  "cloudProviders (probeGo ws ts) = cloudProviders ts"
  "cloudProviders (probeRust ws ts) = cloudProviders ts"
  "cloudProviders (probeDocker ws ts) = cloudProviders ts"
  by (simp_all add: probe_defs detectDependencies_def Let_def split: sum.splits json.splits)

text \<open>What the dependency block appends, field by field.\<close>

lemma detect_frameworks:
  "\<exists>zs. frameworks (detectDependencies pj ts) = frameworks ts @ zs \<and>
     subseq zs [''React'', ''Next.js'', ''Vue.js'', ''Angular'', ''Express'', ''NestJS'',
                ''Fastify'', ''Koa'']"
proof -
  let ?d = "spreadDeps pj"
  let ?r = "truthy ?d ''react'' \<or> truthy ?d ''react-dom''"
  let ?zs = "pushed ?r ''React''
           @ pushed (truthy ?d ''next'') ''Next.js''
           @ pushed (truthy ?d ''vue'') ''Vue.js''
           @ pushed (truthy ?d ''angular'') ''Angular''
           @ pushed (truthy ?d ''express'') ''Express''
           @ pushed (truthy ?d ''@nestjs/core'') ''NestJS''
           @ pushed (truthy ?d ''fastify'') ''Fastify''
           @ pushed (truthy ?d ''koa'') ''Koa''"
  have "frameworks (detectDependencies pj ts) = frameworks ts @ ?zs"
    by (simp add: detectDependencies_def Let_def pushed_def[of ?r])
  moreover have "subseq ?zs [''React'', ''Next.js'', ''Vue.js'', ''Angular'', ''Express'',
                             ''NestJS'', ''Fastify'', ''Koa'']"
    by (intro subseq_pushed_Cons subseq_pushed)
  ultimately show ?thesis by blast
qed

lemma detect_databases:
  "\<exists>zs. databases (detectDependencies pj ts) = databases ts @ zs \<and>
     subseq zs [''MongoDB'', ''SQL'', ''PostgreSQL'', ''MySQL'', ''Redis'', ''Prisma''] \<and>
     (''SQL'' \<in> set zs) =
       (truthy (spreadDeps pj) ''sequelize'' \<or> truthy (spreadDeps pj) ''typeorm'')"
proof -
  let ?d = "spreadDeps pj"
  let ?zs = "pushed (truthy ?d ''mongoose'') ''MongoDB''
           @ pushed (truthy ?d ''sequelize'' \<or> truthy ?d ''typeorm'') ''SQL''
           @ pushed (truthy ?d ''pg'' \<or> truthy ?d ''pg-native'') ''PostgreSQL''
           @ pushed (truthy ?d ''mysql'' \<or> truthy ?d ''mysql2'') ''MySQL''
           @ pushed (truthy ?d ''redis'') ''Redis''
           @ pushed (truthy ?d ''@prisma/client'') ''Prisma''"
  have "databases (detectDependencies pj ts) = databases ts @ ?zs"
    by (simp add: detectDependencies_def Let_def)
  moreover have "subseq ?zs [''MongoDB'', ''SQL'', ''PostgreSQL'', ''MySQL'', ''Redis'', ''Prisma'']"
    by (intro subseq_pushed_Cons subseq_pushed)
  moreover have "(''SQL'' \<in> set ?zs) = (truthy ?d ''sequelize'' \<or> truthy ?d ''typeorm'')"
    by (simp add: pushed_def)
  ultimately show ?thesis by blast
qed

lemma detect_buildTools:
  "\<exists>zs. buildTools (detectDependencies pj ts) = buildTools ts @ zs \<and>
     subseq zs [''Webpack'', ''Vite'', ''Rollup'', ''esbuild'']"
proof -
  let ?d = "spreadDeps pj"
  let ?zs = "pushed (truthy ?d ''webpack'') ''Webpack''
           @ pushed (truthy ?d ''vite'') ''Vite''
           @ pushed (truthy ?d ''rollup'') ''Rollup''
           @ pushed (truthy ?d ''esbuild'') ''esbuild''"
  have "buildTools (detectDependencies pj ts) = buildTools ts @ ?zs"
    by (simp add: detectDependencies_def Let_def)
  moreover have "subseq ?zs [''Webpack'', ''Vite'', ''Rollup'', ''esbuild'']"
    by (intro subseq_pushed_Cons subseq_pushed)
  ultimately show ?thesis by blast
qed

lemma detect_packageManagers:
  "packageManagers (detectDependencies pj ts) = packageManagers ts"
  by (simp add: detectDependencies_def Let_def)

text \<open>What each probe appends.\<close>

lemma spreadDeps_none:
  "dependencies pj = None \<Longrightarrow> devDependencies pj = None \<Longrightarrow> \<not> truthy (spreadDeps pj) k"
  by (simp add: spreadDeps_def truthy_def)

lemma package_frameworks:
  "\<exists>zs. frameworks (probePackageJson ws ts) = frameworks ts @ zs \<and>
     subseq zs [''React'', ''Next.js'', ''Vue.js'', ''Angular'', ''Express'', ''NestJS'',
                ''Fastify'', ''Koa'']"
proof (cases "packageJsonFile ws")
  case (Inl e)
  then show ?thesis by (simp add: probePackageJson_def)
next
  case (Inr doc)
  show ?thesis
  proof (cases doc)
    case JsonNull
    with Inr show ?thesis by (simp add: probePackageJson_def)
  next
    case (JsonValue pj)
    let ?ts1 = "ts\<lparr>packageManagers := packageManagers ts @ [''npm''], hasNode := True\<rparr>"
    obtain zs where zs: "frameworks (detectDependencies pj ?ts1) = frameworks ?ts1 @ zs"
      "subseq zs [''React'', ''Next.js'', ''Vue.js'', ''Angular'', ''Express'', ''NestJS'',
                ''Fastify'', ''Koa'']"
      using detect_frameworks by blast
    show ?thesis
    proof (cases "dependencies pj \<noteq> None \<or> devDependencies pj \<noteq> None")
      case True
      with Inr JsonValue zs show ?thesis
        by (auto simp add: probePackageJson_def Let_def)
    next
      case False
      with Inr JsonValue show ?thesis
        by (simp add: probePackageJson_def Let_def)
    qed
  qed
qed

lemma package_databases:
  "\<exists>zs. databases (probePackageJson ws ts) = databases ts @ zs \<and>
     subseq zs [''MongoDB'', ''SQL'', ''PostgreSQL'', ''MySQL'', ''Redis'', ''Prisma''] \<and>
     (''SQL'' \<in> set zs) = nodeOrmDetected ws"
proof (cases "packageJsonFile ws")
  case (Inl e)
  then show ?thesis by (simp add: probePackageJson_def nodeOrmDetected_def)
next
  case (Inr doc)
  show ?thesis
  proof (cases doc)
    case JsonNull
    with Inr show ?thesis by (simp add: probePackageJson_def nodeOrmDetected_def)
  next
    case (JsonValue pj)
    let ?ts1 = "ts\<lparr>packageManagers := packageManagers ts @ [''npm''], hasNode := True\<rparr>"
    obtain zs where zs: "databases (detectDependencies pj ?ts1) = databases ?ts1 @ zs"
      "subseq zs [''MongoDB'', ''SQL'', ''PostgreSQL'', ''MySQL'', ''Redis'', ''Prisma'']"
      "(''SQL'' \<in> set zs) =
         (truthy (spreadDeps pj) ''sequelize'' \<or> truthy (spreadDeps pj) ''typeorm'')"
      using detect_databases by blast
    show ?thesis
    proof (cases "dependencies pj \<noteq> None \<or> devDependencies pj \<noteq> None")
      case True
      with Inr JsonValue zs show ?thesis
        by (auto simp add: probePackageJson_def Let_def nodeOrmDetected_def)
    next
      case False
      with Inr JsonValue show ?thesis
        by (simp add: probePackageJson_def Let_def nodeOrmDetected_def spreadDeps_none)
    qed
  qed
qed

lemma package_buildTools:
  "\<exists>zs. buildTools (probePackageJson ws ts) = buildTools ts @ zs \<and>
     subseq zs [''Webpack'', ''Vite'', ''Rollup'', ''esbuild'']"
proof (cases "packageJsonFile ws")
  case (Inl e)
  then show ?thesis by (simp add: probePackageJson_def)
next
  case (Inr doc)
  show ?thesis
  proof (cases doc)
    case JsonNull
    with Inr show ?thesis by (simp add: probePackageJson_def)
  next
    case (JsonValue pj)
    let ?ts1 = "ts\<lparr>packageManagers := packageManagers ts @ [''npm''], hasNode := True\<rparr>"
    obtain zs where zs: "buildTools (detectDependencies pj ?ts1) = buildTools ?ts1 @ zs"
      "subseq zs [''Webpack'', ''Vite'', ''Rollup'', ''esbuild'']"
      using detect_buildTools by blast
    show ?thesis
    proof (cases "dependencies pj \<noteq> None \<or> devDependencies pj \<noteq> None")
      case True
      with Inr JsonValue zs show ?thesis
        by (auto simp add: probePackageJson_def Let_def)
    next
      case False
      with Inr JsonValue show ?thesis
        by (simp add: probePackageJson_def Let_def)
    qed
  qed
qed

lemma package_packageManagers:
  "\<exists>zs. packageManagers (probePackageJson ws ts) = packageManagers ts @ zs \<and> subseq zs [''npm'']"
  by (auto simp add: probePackageJson_def Let_def detect_packageManagers split: sum.splits json.splits)

lemma requirements_frameworks:
  "\<exists>zs. frameworks (probeRequirements ws ts) = frameworks ts @ zs \<and>
     subseq zs [''Django'', ''Flask'', ''FastAPI'']"
proof (cases "access ws ''requirements.txt''")
  case (Inl e)
  then show ?thesis by (simp add: probeRequirements_def)
next
  case (Inr u)
  show ?thesis
  proof (cases "readFile ws ''requirements.txt''")
    case (Inl e)
    with Inr show ?thesis by (simp add: probeRequirements_def)
  next
    case r: (Inr requirements)
    have "subseq (pushed (str_includes requirements ''django'') ''Django''
                @ pushed (str_includes requirements ''flask'') ''Flask''
                @ pushed (str_includes requirements ''fastapi'') ''FastAPI'')
            [''Django'', ''Flask'', ''FastAPI'']"
      by (intro subseq_pushed_Cons subseq_pushed)
    with Inr r show ?thesis by (simp add: probeRequirements_def)
  qed
qed

lemma requirements_databases:
  "databases (probeRequirements ws ts) = databases ts @ pushed (sqlalchemyDetected ws) ''SQL''"
  by (simp add: probeRequirements_def sqlalchemyDetected_def pushed_def split: sum.splits)

lemma requirements_packageManagers:
  "\<exists>zs. packageManagers (probeRequirements ws ts) = packageManagers ts @ zs \<and> subseq zs [''pip'']"
  by (auto simp add: probeRequirements_def Let_def split: sum.splits)

lemma java_packageManagers:
  "\<exists>zs. packageManagers (probeJava ws ts) = packageManagers ts @ zs \<and>
     subseq zs [''Maven'', ''Gradle'']"
  by (auto simp add: probeJava_def Let_def split: sum.splits)

lemma docker_buildTools:
  "\<exists>zs. buildTools (probeDocker ws ts) = buildTools ts @ zs \<and> subseq zs [''Docker'']"
  by (auto simp add: probeDocker_def split: sum.splits)

lemma cloud_cloudProviders:
  "\<exists>zs. cloudProviders (probeCloud ws ts) = cloudProviders ts @ zs \<and>
     subseq zs [''Vercel'', ''Netlify'', ''AWS Lambda'', ''GitHub Actions'']"
proof (cases "glob ws ''**/{vercel.json,netlify.toml,serverless.yml,.github/workflows/*.yml}'' []")
  case (Inl e)
  then show ?thesis by (simp add: probeCloud_def)
next
  case (Inr files)
  have "subseq (pushed (list_ex (\<lambda>f. str_includes f ''vercel'') files) ''Vercel''
                @ pushed (list_ex (\<lambda>f. str_includes f ''netlify'') files) ''Netlify''
                @ pushed (list_ex (\<lambda>f. str_includes f ''serverless'') files) ''AWS Lambda''
                @ pushed (list_ex (\<lambda>f. str_includes f ''.github/workflows'') files) ''GitHub Actions'')
          [''Vercel'', ''Netlify'', ''AWS Lambda'', ''GitHub Actions'']"
    by (intro subseq_pushed_Cons subseq_pushed)
  with Inr show ?thesis by (simp add: probeCloud_def)
qed

lemma kubernetes_cloudProviders:
  "\<exists>zs. cloudProviders (probeKubernetes ws ts) = cloudProviders ts @ zs \<and>
     subseq zs [''Kubernetes'']"
  by (auto simp add: probeKubernetes_def subseq_pushed split: sum.splits)

text \<open>The fields of the finished stack.\<close>

lemma stack_frameworks:
  "analyzeTechStack ws = Inr ts \<Longrightarrow> distinct (frameworks ts)"
proof -
  assume a: "analyzeTechStack ws = Inr ts"
  obtain z1 where z1: "frameworks (probePackageJson ws emptyStack) = frameworks emptyStack @ z1"
     "subseq z1 [''React'', ''Next.js'', ''Vue.js'', ''Angular'', ''Express'', ''NestJS'',
                ''Fastify'', ''Koa'']"
    using package_frameworks by blast
  obtain z2 where z2: "frameworks (probeRequirements ws (probePackageJson ws emptyStack))
        = frameworks (probePackageJson ws emptyStack) @ z2"
     "subseq z2 [''Django'', ''Flask'', ''FastAPI'']"
    using requirements_frameworks by blast
  have eq: "frameworks ts = z1 @ z2"
    using a z1(1) z2(1) by (auto simp add: analyzeTechStack_def frameworks_kept emptyStack_def)
  have "subseq (z1 @ z2) ([''React'', ''Next.js'', ''Vue.js'', ''Angular'', ''Express'', ''NestJS'',
                ''Fastify'', ''Koa''] @ [''Django'', ''Flask'', ''FastAPI''])"
    using z1(2) z2(2) by (rule list_emb_append_mono)
  then have "distinct (z1 @ z2)"
    by (rule subseq_distinct) simp
  then show ?thesis
    by (simp only: eq)
qed

lemma stack_buildTools:
  "analyzeTechStack ws = Inr ts \<Longrightarrow> distinct (buildTools ts)"
proof -
  assume a: "analyzeTechStack ws = Inr ts"
  let ?t = "probeCloud ws (probeRust ws (probeGo ws
       (probeJava ws (probeRequirements ws (probePackageJson ws emptyStack)))))"
  obtain z1 where z1: "buildTools (probePackageJson ws emptyStack) = buildTools emptyStack @ z1"
     "subseq z1 [''Webpack'', ''Vite'', ''Rollup'', ''esbuild'']"
    using package_buildTools by blast
  obtain z2 where z2: "buildTools (probeDocker ws ?t) = buildTools ?t @ z2"
     "subseq z2 [''Docker'']"
    using docker_buildTools by blast
  have eq: "buildTools ts = z1 @ z2"
    using a z1(1) z2(1) by (auto simp add: analyzeTechStack_def buildTools_kept emptyStack_def)
  have "subseq (z1 @ z2) ([''Webpack'', ''Vite'', ''Rollup'', ''esbuild''] @ [''Docker''])"
    using z1(2) z2(2) by (rule list_emb_append_mono)
  then have "distinct (z1 @ z2)"
    by (rule subseq_distinct) simp
  then show ?thesis
    by (simp only: eq)
qed

lemma stack_packageManagers:
  "analyzeTechStack ws = Inr ts \<Longrightarrow> distinct (packageManagers ts)"
proof -
  assume a: "analyzeTechStack ws = Inr ts"
  let ?t1 = "probePackageJson ws emptyStack"
  let ?t2 = "probeRequirements ws ?t1"
  obtain z1 where z1: "packageManagers ?t1 = packageManagers emptyStack @ z1" "subseq z1 [''npm'']"
    using package_packageManagers by blast
  obtain z2 where z2: "packageManagers ?t2 = packageManagers ?t1 @ z2" "subseq z2 [''pip'']"
    using requirements_packageManagers by blast
  obtain z3 where z3: "packageManagers (probeJava ws ?t2) = packageManagers ?t2 @ z3"
     "subseq z3 [''Maven'', ''Gradle'']"
    using java_packageManagers by blast
  have eq: "packageManagers ts = z1 @ z2 @ z3"
    using a z1(1) z2(1) z3(1)
    by (auto simp add: analyzeTechStack_def packageManagers_kept emptyStack_def)
  have "subseq (z1 @ z2 @ z3) ([''npm''] @ [''pip''] @ [''Maven'', ''Gradle''])"
    using z1(2) z2(2) z3(2) by (intro list_emb_append_mono)
  then have "distinct (z1 @ z2 @ z3)"
    by (rule subseq_distinct) simp
  then show ?thesis
    by (simp only: eq)
qed

lemma stack_cloudProviders:
  "analyzeTechStack ws = Inr ts \<Longrightarrow> distinct (cloudProviders ts)"
proof -
  assume a: "analyzeTechStack ws = Inr ts"
  let ?t1 = "probeRust ws (probeGo ws
       (probeJava ws (probeRequirements ws (probePackageJson ws emptyStack))))"
  let ?t2 = "probeDocker ws (probeCloud ws ?t1)"
  obtain z1 where z1: "cloudProviders (probeCloud ws ?t1) = cloudProviders ?t1 @ z1"
     "subseq z1 [''Vercel'', ''Netlify'', ''AWS Lambda'', ''GitHub Actions'']"
    using cloud_cloudProviders by blast
  obtain z2 where z2: "cloudProviders (probeKubernetes ws ?t2) = cloudProviders ?t2 @ z2"
     "subseq z2 [''Kubernetes'']"
    using kubernetes_cloudProviders by blast
  have eq: "cloudProviders ts = z1 @ z2"
    using a z1(1) z2(1) by (auto simp add: analyzeTechStack_def cloudProviders_kept emptyStack_def)
  have "subseq (z1 @ z2) ([''Vercel'', ''Netlify'', ''AWS Lambda'', ''GitHub Actions''] @ [''Kubernetes''])"
    using z1(2) z2(2) by (rule list_emb_append_mono)
  then have "distinct (z1 @ z2)"
    by (rule subseq_distinct) simp
  then show ?thesis
    by (simp only: eq)
qed

lemma stack_databases:
  assumes a: "analyzeTechStack ws = Inr ts"
  shows "distinct (databases ts) = (\<not> (nodeOrmDetected ws \<and> sqlalchemyDetected ws))"
    and "distinct (filter (\<lambda>d. d \<noteq> ''SQL'') (databases ts))"
proof -
  let ?t1 = "probePackageJson ws emptyStack"
  obtain z1 where z1: "databases ?t1 = databases emptyStack @ z1"
     "subseq z1 [''MongoDB'', ''SQL'', ''PostgreSQL'', ''MySQL'', ''Redis'', ''Prisma'']"
     "(''SQL'' \<in> set z1) = nodeOrmDetected ws"
    using package_databases by blast
  have d1: "distinct z1"
    using z1(2) by (rule subseq_distinct) simp
  have eq: "databases ts = z1 @ pushed (sqlalchemyDetected ws) ''SQL''"
    using a z1(1)
    by (auto simp add: analyzeTechStack_def databases_kept requirements_databases emptyStack_def)
  show "distinct (databases ts) = (\<not> (nodeOrmDetected ws \<and> sqlalchemyDetected ws))"
    using d1 z1(3) by (auto simp add: eq pushed_def)
  show "distinct (filter (\<lambda>d. d \<noteq> ''SQL'') (databases ts))"
    using d1 by (simp add: eq pushed_def)
qed

lemma analyzeTechStack_total: "\<exists>ts. analyzeTechStack ws = Inr ts"
  by (simp add: analyzeTechStack_def)

section \<open>Facts about the orchestration\<close>

lemma those_map_Some: "those (map Some xs) = Some xs"
  by (induction xs) simp_all

lemma fold_slots:
  "length slots = length ps \<Longrightarrow>
   fold (\<lambda>i slots. slots[i := Some (ps ! i)]) js slots =
     map (\<lambda>j. if j \<in> set js then Some (ps ! j) else slots ! j) [0..<length ps]"
proof (induction js arbitrary: slots)
  case Nil
  then show ?case by (intro nth_equalityI) simp_all
next
  case (Cons i js)
  have "length (slots[i := Some (ps ! i)]) = length ps"
    using Cons.prems by simp
  from Cons.IH [OF this] show ?case
    using Cons.prems by (intro nth_equalityI) (simp_all add: nth_list_update)
qed

lemma set_completionOrder: "set (completionOrder delays n) = {0..<n}"
  by (simp add: completionOrder_def)

lemma allSettled_delivers: "allSettled delays ps = Some ps"
proof -
  have "fold (\<lambda>i slots. slots[i := Some (ps ! i)]) (completionOrder delays (length ps))
          (replicate (length ps) None)
        = map (\<lambda>j. Some (ps ! j)) [0..<length ps]"
    by (simp add: fold_slots set_completionOrder)
  also have "\<dots> = map Some ps"
    by (intro nth_equalityI) simp_all
  finally show ?thesis
    by (simp add: allSettled_def those_map_Some)
qed

lemma collect_runAgent:
  "collect (map runAgent registered) (acc, summary) =
     (acc @ concat (map outcomeSkills registered), summary @ map outcomeEntry registered)"
proof (induction registered arbitrary: acc summary)
  case Nil
  then show ?case by simp
next
  case (Cons a registered)
  obtain n t where a: "a = (n, t)" by (cases a)
  show ?case
  proof (cases t)
    case (Inl e)
    then have "runAgent a = Fulfilled \<lparr>agentName = n, agentSkills = [], agentSuccess = False,
                     agentError = Some (message e)\<rparr>"
      by (simp add: a runAgent_def)
    then show ?thesis by (simp add: a Inl Cons.IH)
  next
    case (Inr produced)
    then have "runAgent a = Fulfilled \<lparr>agentName = n, agentSkills = produced, agentSuccess = True,
                     agentError = None\<rparr>"
      by (simp add: a runAgent_def)
    then show ?thesis by (simp add: a Inr Cons.IH)
  qed
qed

lemma saveAll_snoc:
  "saveAll failing (xs @ [x]) =
     saveAll failing xs @ [(x, length (saveAll failing xs) \<notin> failing)]"
  by (simp add: saveAll_def saveSkill_def Let_def)

lemma length_saveAll: "length (saveAll failing xs) = length xs"
  by (induction xs rule: rev_induct) (simp_all add: saveAll_snoc, simp add: saveAll_def)

lemma saveAll_skills: "map fst (saveAll failing xs) = xs"
  by (induction xs rule: rev_induct) (simp_all add: saveAll_snoc, simp add: saveAll_def)

lemma saveAll_results:
  "map snd (saveAll failing xs) = map (\<lambda>i. i \<notin> failing) [0..<length xs]"
  by (induction xs rule: rev_induct) (simp_all add: saveAll_snoc length_saveAll, simp add: saveAll_def)

lemma orchestrate_eq:
  "orchestrate registered ts delays failing now =
     Some (\<lparr>success = True,
            report = \<lparr>reportTechStack = ts,
                      totalSkillsGenerated = length (concat (map outcomeSkills registered)),
                      agents = map outcomeEntry registered,
                      timestamp = now\<rparr>,
            skills = concat (map outcomeSkills registered)\<rparr>,
           saveAll failing (concat (map outcomeSkills registered)))"
  by (simp add: orchestrate_def allSettled_delivers collect_runAgent)

lemma agent_outcomeEntry: "agent (outcomeEntry a) = fst a"
  by (cases a, case_tac b) simp_all

lemma skillsGenerated_outcomeEntry: "skillsGenerated (outcomeEntry a) = length (outcomeSkills a)"
  by (cases a, case_tac b) simp_all

lemma runAgent_fulfils: "\<exists>v. runAgent a = Fulfilled v \<and> agentName v = fst a"
  by (cases "snd a") (simp_all add: runAgent_def)

lemma runAgents_fulfil:
  "\<exists>vs. map runAgent registered = map Fulfilled vs \<and> map agentName vs = map fst registered"
proof (induction registered)
  case Nil
  then show ?case by simp
next
  case (Cons a registered)
  then obtain vs where vs: "map runAgent registered = map Fulfilled vs"
      "map agentName vs = map fst registered" by blast
  obtain v where v: "runAgent a = Fulfilled v" "agentName v = fst a"
    using runAgent_fulfils by blast
  have "map runAgent (a # registered) = map Fulfilled (v # vs) \<and>
        map agentName (v # vs) = map fst (a # registered)"
    using v vs by simp
  then show ?case by blast
qed

lemma outcomeEntry_fields:
  "(agent (outcomeEntry a), status (outcomeEntry a), error (outcomeEntry a),
    skillsGenerated (outcomeEntry a)) =
   (case a of (n, t) \<Rightarrow>
      (case t of Inl e \<Rightarrow> (n, ''failed'', Some (message e), 0)
               | Inr produced \<Rightarrow> (n, ''success'', None, length produced)))"
  by (cases a, case_tac b) simp_all

lemma registered_names:
  "map fst (agentPromises ws ts) =
     [''Security Analyzer'', ''Performance Analyzer'', ''React Analyzer'', ''Backend Analyzer'',
      ''Frontend Analyzer'', ''Database Analyzer'', ''API Analyzer'', ''Testing Analyzer'',
      ''DevOps Analyzer'']"
  by (simp add: agentPromises_def)

lemma main_eq:
  "analyzeTechStack ws = Inr ts \<Longrightarrow>
   main ws delays failing now =
     Some (Returned \<lparr>success = True,
            report = \<lparr>reportTechStack = ts,
                      totalSkillsGenerated =
                        length (concat (map outcomeSkills (agentPromises ws ts))),
                      agents = map outcomeEntry (agentPromises ws ts),
                      timestamp = now\<rparr>,
            skills = concat (map outcomeSkills (agentPromises ws ts))\<rparr>,
           saveAll failing (concat (map outcomeSkills (agentPromises ws ts))))"
  by (simp add: main_def orchestrate_eq)

lemma main_returns:
  "\<exists>ts result sink. analyzeTechStack ws = Inr ts \<and>
     main ws delays failing now = Some (Returned result, sink) \<and>
     success result \<and> reportTechStack (report result) = ts \<and>
     agents (report result) = map outcomeEntry (agentPromises ws ts) \<and>
     skills result = concat (map outcomeSkills (agentPromises ws ts)) \<and>
     totalSkillsGenerated (report result) = length (skills result) \<and>
     sink = saveAll failing (skills result)"
proof -
  obtain ts where "analyzeTechStack ws = Inr ts"
    using analyzeTechStack_total by blast
  then show ?thesis
    by (simp add: main_eq)
qed

lemma main_summary_names:
  assumes "agents rep = map outcomeEntry (agentPromises ws ts)"
  shows "map agent (agents rep) =
     [''Security Analyzer'', ''Performance Analyzer'', ''React Analyzer'', ''Backend Analyzer'',
      ''Frontend Analyzer'', ''Database Analyzer'', ''API Analyzer'', ''Testing Analyzer'',
      ''DevOps Analyzer'']"
proof -
  have "map agent (agents rep) = map fst (agentPromises ws ts)"
    by (simp add: assms agent_outcomeEntry)
  then show ?thesis
    by (simp only: registered_names)
qed

lemma length_concat_sum: "length (concat xss) = sum_list (map length xss)"
  by (induction xss) simp_all

text \<open>Every order of the tasks is the completion order of some delays.\<close>

lemma position_map:
  "distinct ys \<Longrightarrow> map (\<lambda>i. length (takeWhile (\<lambda>x. x \<noteq> i) ys)) ys = [0..<length ys]"
proof (induction ys rule: rev_induct)
  case Nil
  then show ?case by simp
next
  case (snoc y ys)
  then have d: "distinct ys" and y: "y \<notin> set ys" by simp_all
  have a: "takeWhile (\<lambda>x. x \<noteq> i) (ys @ [y]) = takeWhile (\<lambda>x. x \<noteq> i) ys" if "i \<in> set ys" for i
    using that by (simp add: takeWhile_append1)
  have b: "takeWhile (\<lambda>x. x \<noteq> y) (ys @ [y]) = ys"
    using y by (induction ys) auto
  have "map (\<lambda>i. length (takeWhile (\<lambda>x. x \<noteq> i) (ys @ [y]))) ys =
        map (\<lambda>i. length (takeWhile (\<lambda>x. x \<noteq> i) ys)) ys"
    using a by simp
  with snoc.IH [OF d] b show ?case by simp
qed

lemma sort_key_unique:
  assumes "inj_on f (set xs)" and "distinct xs" and "distinct ys" and "set ys = set xs"
    and "sorted (map f ys)"
  shows "sort_key f xs = ys"
proof -
  have "sorted (map f (sort_key f xs))"
    by (rule sorted_sort_key)
  moreover have "distinct (map f (sort_key f xs))"
    using assms(1,2) by (simp add: distinct_map)
  moreover note assms(5)
  moreover have "distinct (map f ys)"
    using assms(1,3,4) by (simp add: distinct_map)
  moreover have "set (map f (sort_key f xs)) = set (map f ys)"
    using assms(4) by simp
  ultimately have "map f (sort_key f xs) = map f ys"
    by (rule sorted_distinct_set_unique)
  moreover have "inj_on f (set (sort_key f xs) \<union> set ys)"
    using assms(1,4) by simp
  ultimately show ?thesis
    by (simp only: inj_on_map_eq_map)
qed

lemma every_order_is_a_completion_order:
  assumes "distinct order" and "set order = {0..<n}"
  shows "\<exists>delays. completionOrder delays n = order"
proof -
  define pos where "pos = (\<lambda>i. length (takeWhile (\<lambda>x. x \<noteq> i) order))"
  define delays where "delays = map pos [0..<n]"
  define f where "f = (\<lambda>i. if i < length delays then delays ! i else 0)"
  have len: "length order = n"
    using assms distinct_card [of order] by simp
  have "f i = pos i" if "i \<in> set order" for i
    using that assms(2) by (simp add: f_def delays_def)
  then have "map f order = map pos order"
    by (intro map_cong) simp_all
  also have "\<dots> = [0..<n]"
    using position_map [OF assms(1)] len by (simp add: pos_def)
  finally have mp: "map f order = [0..<n]" .
  have "distinct (map f order)"
    by (simp only: mp distinct_upt)
  then have "inj_on f (set order)"
    by (simp only: distinct_map)
  then have inj: "inj_on f (set [0..<n])"
    by (simp only: assms(2) set_upt)
  have "sorted (map f order)"
    by (simp only: mp sorted_upt)
  with inj have "sort_key f [0..<n] = order"
    using assms by (intro sort_key_unique) simp_all
  then have "completionOrder delays n = order"
    by (simp only: completionOrder_def f_def)
  then show ?thesis ..
qed

section \<open>Facts about the analyzers\<close>

text \<open>What the scan loops read.\<close>

lemma scanEnvVarsFrom_eq:
  "scanEnvVarsFrom ws files reads =
     (list_ex (envMarker ws) files, reads @ upToFirst (envMarker ws) files)"
  by (induction files arbitrary: reads)
     (simp_all add: upToFirst_def envMarker_def split: sum.splits)

lemma scanAsyncFrom_eq:
  "scanAsyncFrom ws files reads =
     (list_ex (asyncMarker ws) files, reads @ upToFirst (asyncMarker ws) files)"
  by (induction files arbitrary: reads)
     (simp_all add: upToFirst_def asyncMarker_def split: sum.splits)

lemma scanHooksFrom_reads: "snd (scanHooksFrom ws files (fl, reads)) = reads @ files"
  by (induction files arbitrary: fl reads) (simp_all split: sum.splits)

lemma scanStateFrom_reads: "snd (scanStateFrom ws files (fl, reads)) = reads @ files"
  by (induction files arbitrary: fl reads) (simp_all split: sum.splits)

lemma scanApiFrom_reads: "snd (scanApiFrom ws files (fl, reads)) = reads @ files"
  by (induction files arbitrary: fl reads) (simp_all split: sum.splits)

lemma length_upToFirst: "length (upToFirst hit xs) \<le> length xs"
  by (induction xs) (simp_all add: upToFirst_def)

lemma upToFirst_stops:
  "upToFirst hit xs = before @ x # after \<Longrightarrow> hit x \<Longrightarrow> after = []"
proof (induction xs arbitrary: before)
  case Nil
  then show ?case by (simp add: upToFirst_def)
next
  case (Cons y ys)
  show ?case
  proof (cases "hit y")
    case True
    with Cons.prems show ?thesis
      by (cases before) (simp_all add: upToFirst_def)
  next
    case False
    then have u: "upToFirst hit (y # ys) = y # upToFirst hit ys"
      by (simp add: upToFirst_def)
    show ?thesis
    proof (cases before)
      case Nil
      with Cons.prems u False show ?thesis by simp
    next
      case (Cons b bs)
      with Cons.prems u have "upToFirst hit ys = bs @ x # after" by simp
      with Cons.IH Cons.prems(2) show ?thesis by blast
    qed
  qed
qed

text \<open>What the analyzers return, in general and on the sample workspaces.\<close>

lemmas try_defs = securityTry_def performanceTry_def reactTry_def backendTry_def
  frontendTry_def databaseTry_def apiTry_def testingTry_def devopsTry_def

lemmas generate_defs = generateSecuritySkills_def generatePerformanceSkills_def
  generateReactSkills_def generateBackendSkills_def generateFrontendSkills_def
  generateDatabaseSkills_def generateAPISkills_def generateTestingSkills_def
  generateDevOpsSkills_def

lemma analyzers_return:
  "\<exists>produced. generateSecuritySkills ws ts = Inr produced"
  "\<exists>produced. generatePerformanceSkills ws ts = Inr produced"
  "\<exists>produced. generateReactSkills ws ts = Inr produced"
  "\<exists>produced. generateBackendSkills ws ts = Inr produced"
  "\<exists>produced. generateFrontendSkills ws ts = Inr produced"
  "\<exists>produced. generateDatabaseSkills ws ts = Inr produced"
  "\<exists>produced. generateAPISkills ws ts = Inr produced"
  "\<exists>produced. generateTestingSkills ws ts = Inr produced"
  "\<exists>produced. generateDevOpsSkills ws ts = Inr produced"
  by (simp_all add: generate_defs)


lemma main_all_success:
  assumes "agents rep = map outcomeEntry (agentPromises ws ts)"
  shows "map status (agents rep) = replicate 9 ''success''"
    and "map error (agents rep) = replicate 9 None"
proof -
  obtain p1 p2 p3 p4 p5 p6 p7 p8 p9 where p:
    "generateSecuritySkills ws ts = Inr p1" "generatePerformanceSkills ws ts = Inr p2"
    "generateReactSkills ws ts = Inr p3" "generateBackendSkills ws ts = Inr p4"
    "generateFrontendSkills ws ts = Inr p5" "generateDatabaseSkills ws ts = Inr p6"
    "generateAPISkills ws ts = Inr p7" "generateTestingSkills ws ts = Inr p8"
    "generateDevOpsSkills ws ts = Inr p9"
    using analyzers_return [of ws ts] by blast
  show "map status (agents rep) = replicate 9 ''success''"
    by (simp add: assms agentPromises_def p numeral_eq_Suc)
  show "map error (agents rep) = replicate 9 None"
    by (simp add: assms agentPromises_def p numeral_eq_Suc)
qed



lemma emptyWorkspace_skills:
  "generateSecuritySkills emptyWorkspace emptyStack =
     Inr [\<lparr>name = ''security-best-practices'', displayName = ''Security Best Practices'',
           description = ''Guidelines for writing secure code based on codebase analysis'',
           guidelines = [], category = ''security'', techStack = [], metadata = None\<rparr>]"
  "generateReactSkills emptyWorkspace emptyStack = Inr []"
  "generateBackendSkills emptyWorkspace emptyStack = Inr []"
  "generateDatabaseSkills emptyWorkspace emptyStack = Inr []"
  "generateDevOpsSkills emptyWorkspace emptyStack =
     Inr [\<lparr>name = ''devops-best-practices'', displayName = ''DevOps Best Practices'',
           description = ''Guidelines for DevOps and deployment based on detected infrastructure'',
           guidelines = devopsGeneralGuidelines @ devopsPipelineGuidelines,
           category = ''devops'', techStack = [],
           metadata = Some [(''hasDocker'', MBool False), (''hasDockerCompose'', MBool False),
             (''hasK8s'', MBool False), (''hasTerraform'', MBool False),
             (''hasGitHubActions'', MBool False), (''cloudProviders'', MStrs [])]\<rparr>]"
  by (simp_all add: generate_defs try_defs await_def emptyWorkspace_def emptyStack_def
        scanEnvVars_def Let_def)

lemma missingRoot_counts:
  "map (\<lambda>a. length (outcomeSkills a)) (agentPromises missingRoot emptyStack) =
     [1, 1, 0, 0, 1, 0, 1, 1, 1]"
  by (simp add: agentPromises_def generate_defs try_defs await_def missingRoot_def emptyStack_def
        scanEnvVars_def scanAsync_def scanApi_def packageDeps_def Let_def)

lemma missingRoot_stack: "analyzeTechStack missingRoot = Inr emptyStack"
  by (simp add: analyzeTechStack_def probe_defs missingRoot_def pushed_def)

text \<open>What the sink holds after the save loop, and what the report says of each agent.\<close>

lemma saveAll_zip:
  "saveAll failing xs = zip xs (map (\<lambda>i. i \<notin> failing) [0..<length xs])"
proof -
  have "saveAll failing xs = zip (map fst (saveAll failing xs)) (map snd (saveAll failing xs))"
    by (simp add: zip_map_fst_snd)
  then show ?thesis
    by (simp only: saveAll_skills saveAll_results)
qed

lemma outcomeSkills_case:
  "outcomeSkills = (\<lambda>(n, t). case t of Inl e \<Rightarrow> [] | Inr produced \<Rightarrow> produced)"
  by (rule ext) (auto split: sum.splits)






lemma missingRoot_skill_names:
  "map name (concat (map outcomeSkills (agentPromises missingRoot emptyStack))) =
     [''security-best-practices'', ''performance-optimization'', ''frontend-best-practices'',
      ''api-best-practices'', ''testing-best-practices'', ''devops-best-practices'']"
  by (simp add: agentPromises_def generate_defs try_defs await_def missingRoot_def emptyStack_def
        scanEnvVars_def scanAsync_def scanApi_def packageDeps_def Let_def)




lemma main_entries:
  "\<exists>st result sink. analyzeTechStack ws = Inr st \<and>
     main ws delays failing now = Some (Returned result, sink) \<and>
     skills result = concat (map outcomeSkills (agentPromises ws st)) \<and>
     sink = saveAll failing (skills result) \<and>
     map (\<lambda>s. (agent s, skillsGenerated s)) (agents (report result)) =
       map (\<lambda>a. (fst a, length (outcomeSkills a))) (agentPromises ws st)"
proof -
  obtain st result sink where m: "analyzeTechStack ws = Inr st"
    "main ws delays failing now = Some (Returned result, sink)"
    "agents (report result) = map outcomeEntry (agentPromises ws st)"
    "skills result = concat (map outcomeSkills (agentPromises ws st))"
    "sink = saveAll failing (skills result)"
    using main_returns [of ws delays failing now] by blast
  have "map (\<lambda>s. (agent s, skillsGenerated s)) (agents (report result)) =
       map (\<lambda>a. (fst a, length (outcomeSkills a))) (agentPromises ws st)"
    by (simp add: m(3) agent_outcomeEntry skillsGenerated_outcomeEntry)
  with m(1,2,4,5) show ?thesis
    by (intro exI conjI)
qed

lemma main_ignores_failing:
  "map_option fst (main ws delays failing now) = map_option fst (main ws delays {} now)"
proof -
  obtain st where "analyzeTechStack ws = Inr st"
    using analyzeTechStack_total by blast
  then show ?thesis
    by (simp add: main_eq)
qed

section \<open>Claims\<close>

text \<open>
  C1 (amended). The stack builder never fails: every probe sits in a \<^verbatim>\<open>try\<close> with an empty
  \<^verbatim>\<open>catch\<close>, so for every workspace, a root that does not exist included,
  \<^verbatim>\<open>analyzeTechStack\<close> returns a tech stack, \<^verbatim>\<open>main\<close> does not exit, and it returns a
  report that carries that stack.
\<close>

theorem stack_builder_never_fatal:
  "(\<exists>ts. analyzeTechStack ws = Inr ts) \<and>
   exitCode (main ws delays failing now) = None \<and>
   (\<exists>ts rep. analyzeTechStack ws = Inr ts \<and>
      producedReport (main ws delays failing now) = Some rep \<and> reportTechStack rep = ts)"
proof -
  obtain ts result sink where m: "analyzeTechStack ws = Inr ts"
    "main ws delays failing now = Some (Returned result, sink)"
    "reportTechStack (report result) = ts"
    using main_returns [of ws delays failing now] by blast
  then show ?thesis by simp
qed

text \<open>
  The theorem at a root that does not exist: the stack is the empty one.
\<close>

theorem stack_builder_never_fatal_witness:
  "exitCode (main missingRoot [] {} ''2024-01-01T00:00:00.000Z'') = None \<and>
   (\<exists>rep. producedReport (main missingRoot [] {} ''2024-01-01T00:00:00.000Z'') = Some rep \<and>
      reportTechStack rep = emptyStack)"
  using stack_builder_never_fatal [of missingRoot "[]" "{}" "''2024-01-01T00:00:00.000Z''"]
  by (simp add: missingRoot_stack)

text \<open>
  C1 as stated fails at a workspace root that does not exist: the run does not exit, and
  the report lists nine successful agents and six generated skills.
\<close>

theorem missing_root_yields_report:
  "analyzeTechStack missingRoot = Inr emptyStack \<and>
   exitCode (main missingRoot [] {} ''2024-01-01T00:00:00.000Z'') = None \<and>
   map_option (\<lambda>rep. (totalSkillsGenerated rep, map skillsGenerated (agents rep),
                       map status (agents rep)))
     (producedReport (main missingRoot [] {} ''2024-01-01T00:00:00.000Z'')) =
     Some (6, [1, 1, 0, 0, 1, 0, 1, 1, 1], replicate 9 ''success'')"
proof -
  obtain ts result sink where m: "analyzeTechStack missingRoot = Inr ts"
    "main missingRoot [] {} ''2024-01-01T00:00:00.000Z'' = Some (Returned result, sink)"
    "agents (report result) = map outcomeEntry (agentPromises missingRoot ts)"
    "skills result = concat (map outcomeSkills (agentPromises missingRoot ts))"
    "totalSkillsGenerated (report result) = length (skills result)"
    using main_returns [of missingRoot "[]" "{}" "''2024-01-01T00:00:00.000Z''"] by blast
  from m(1) have ts: "ts = emptyStack"
    by (simp add: missingRoot_stack)
  have c: "map skillsGenerated (agents (report result)) = [1, 1, 0, 0, 1, 0, 1, 1, 1]"
    using missingRoot_counts by (simp add: m(3) ts skillsGenerated_outcomeEntry comp_def)
  have "totalSkillsGenerated (report result) = sum_list (map (\<lambda>a. length (outcomeSkills a)) (agentPromises missingRoot emptyStack))"
    by (simp add: m(4,5) ts length_concat_sum comp_def)
  then have t: "totalSkillsGenerated (report result) = 6"
    by (simp only: missingRoot_counts) simp
  have s: "map status (agents (report result)) = replicate 9 ''success''"
    using m(3) by (rule main_all_success)
  show ?thesis
    by (simp only: m(2) missingRoot_stack exitCode.simps producedReport.simps c t s
          option.map_sel option.simps)
qed

text \<open>
  C2. For every list of registered agents, whatever each task settles to and in whatever
  order they complete, the run returns its result: a task that threw has the summary entry
  (name, failed, its error message, 0 skills), every other agent has the entry (name,
  success, no error, its skill count), and the skills of the successful agents are all
  collected. \<^verbatim>\<open>main\<close> itself always returns, with nine summary entries.
\<close>

theorem failure_isolated:
  "(\<exists>result sink. orchestrate registered ts delays failing now = Some (result, sink) \<and>
     success result \<and>
     map (\<lambda>s. (agent s, status s, error s, skillsGenerated s)) (agents (report result)) =
       map (\<lambda>(n, t). case t of
              Inl e \<Rightarrow> (n, ''failed'', Some (message e), 0)
            | Inr produced \<Rightarrow> (n, ''success'', None, length produced)) registered \<and>
     skills result =
       concat (map (\<lambda>(n, t). case t of Inl e \<Rightarrow> [] | Inr produced \<Rightarrow> produced) registered)) \<and>
   (\<exists>result sink. main ws delays failing now = Some (Returned result, sink) \<and>
      length (agents (report result)) = 9)"
proof -
  obtain st result sink where m: "main ws delays failing now = Some (Returned result, sink)"
    "agents (report result) = map outcomeEntry (agentPromises ws st)"
    using main_returns by blast
  from m(2) have "length (agents (report result)) = 9"
    by (simp add: agentPromises_def)
  with m(1) have run: "\<exists>result sink. main ws delays failing now = Some (Returned result, sink) \<and>
      length (agents (report result)) = 9"
    by (intro exI conjI)
  have "outcomeSkills = (\<lambda>(n, t). case t of Inl e \<Rightarrow> [] | Inr produced \<Rightarrow> produced)"
    by (rule ext) (auto split: sum.splits)
  then show ?thesis
    using run by (simp add: orchestrate_eq outcomeEntry_fields comp_def)
qed

text \<open>
  The theorem at three agents of which the second throws.
\<close>

theorem failure_isolated_witness:
  "\<exists>result sink. orchestrate threeAgents emptyStack [0, 0, 0] {} ''now'' = Some (result, sink) \<and>
     map (\<lambda>s. (agent s, status s, error s, skillsGenerated s)) (agents (report result)) =
       [(''First'', ''success'', None, 1), (''Second'', ''failed'', Some ''boom'', 0),
        (''Third'', ''success'', None, 2)] \<and>
     skills result = [sampleSkill, sampleSkill, sampleSkill]"
  using failure_isolated [of threeAgents emptyStack "[0, 0, 0]" "{}" "''now''" emptyWorkspace]
  by (auto simp add: threeAgents_def)

text \<open>
  C3. In every run that reaches aggregation, \<^verbatim>\<open>totalSkillsGenerated\<close> is the number of
  calls made to the sink, the sink was given exactly the skills of the result, and the
  total is the sum of the skill counts of the agents that succeeded. An agent that failed
  adds nothing to the total and has one summary entry, with status failed and its error
  message.
\<close>

theorem total_counts_saved_skills:
  "\<exists>result sink. orchestrate registered ts delays failing now = Some (result, sink) \<and>
     totalSkillsGenerated (report result) = length sink \<and>
     map fst sink = skills result \<and>
     totalSkillsGenerated (report result) =
       sum_list (map (\<lambda>(n, t). case t of Inl e \<Rightarrow> 0 | Inr produced \<Rightarrow> length produced)
                   registered) \<and>
     map (\<lambda>s. (agent s, status s, error s, skillsGenerated s)) (agents (report result)) =
       map (\<lambda>(n, t). case t of
              Inl e \<Rightarrow> (n, ''failed'', Some (message e), 0)
            | Inr produced \<Rightarrow> (n, ''success'', None, length produced)) registered"
proof -
  have "(\<lambda>a. length (outcomeSkills a)) =
        (\<lambda>(n, t). case t of Inl e \<Rightarrow> 0 | Inr produced \<Rightarrow> length produced)"
    by (rule ext) (auto split: sum.splits)
  then show ?thesis
    by (simp add: orchestrate_eq outcomeEntry_fields comp_def length_saveAll saveAll_skills
          length_concat_sum)
qed

text \<open>
  The theorem at three agents of which the second throws, the second save failing.
\<close>

theorem total_counts_saved_skills_witness:
  "\<exists>result sink. orchestrate threeAgents emptyStack [2, 1, 0] {1} ''now'' = Some (result, sink) \<and>
     totalSkillsGenerated (report result) = 3 \<and> length sink = 3 \<and>
     map fst sink = [sampleSkill, sampleSkill, sampleSkill] \<and>
     map (\<lambda>s. (agent s, status s, error s, skillsGenerated s)) (agents (report result)) =
       [(''First'', ''success'', None, 1), (''Second'', ''failed'', Some ''boom'', 0),
        (''Third'', ''success'', None, 2)]"
proof -
  obtain result sink where r:
    "orchestrate threeAgents emptyStack [2, 1, 0] {1} ''now'' = Some (result, sink)"
    "totalSkillsGenerated (report result) = length sink"
    "map fst sink = skills result"
    "totalSkillsGenerated (report result) =
       sum_list (map (\<lambda>(n, t). case t of Inl e \<Rightarrow> 0 | Inr produced \<Rightarrow> length produced)
                   threeAgents)"
    "map (\<lambda>s. (agent s, status s, error s, skillsGenerated s)) (agents (report result)) =
       map (\<lambda>(n, t). case t of
              Inl e \<Rightarrow> (n, ''failed'', Some (message e), 0)
            | Inr produced \<Rightarrow> (n, ''success'', None, length produced)) threeAgents"
    using total_counts_saved_skills [of threeAgents emptyStack "[2, 1, 0]" "{1}" "''now''"]
    by blast
  have "skills result = [sampleSkill, sampleSkill, sampleSkill]"
    using r(1) by (auto simp add: orchestrate_eq threeAgents_def)
  with r show ?thesis
    by (simp add: threeAgents_def)
qed

text \<open>
  C4. For every assignment of delays to the tasks, hence every completion order, the
  summary lists the agents in registration order: entry \<open>i\<close> names the \<open>i\<close>-th
  registered agent. For \<^verbatim>\<open>main\<close> that is the fixed order of its nine analyzers.
\<close>

theorem summary_in_registration_order:
  "(\<exists>result sink. orchestrate registered ts delays failing now = Some (result, sink) \<and>
      map agent (agents (report result)) = map fst registered) \<and>
   (\<exists>result sink. main ws delays failing now = Some (Returned result, sink) \<and>
      map agent (agents (report result)) =
        [''Security Analyzer'', ''Performance Analyzer'', ''React Analyzer'',
         ''Backend Analyzer'', ''Frontend Analyzer'', ''Database Analyzer'', ''API Analyzer'',
         ''Testing Analyzer'', ''DevOps Analyzer'']) \<and>
   (distinct order \<and> set order = {0..<length registered} \<longrightarrow>
      (\<exists>delays' result sink. completionOrder delays' (length registered) = order \<and>
         orchestrate registered ts delays' failing now = Some (result, sink) \<and>
         map agent (agents (report result)) = map fst registered))"
proof (intro conjI impI)
  assume "distinct order \<and> set order = {0..<length registered}"
  then obtain delays' where "completionOrder delays' (length registered) = order"
    using every_order_is_a_completion_order by blast
  then show "\<exists>delays' result sink. completionOrder delays' (length registered) = order \<and>
         orchestrate registered ts delays' failing now = Some (result, sink) \<and>
         map agent (agents (report result)) = map fst registered"
    by (auto simp add: orchestrate_eq agent_outcomeEntry)
next
  show "\<exists>result sink. orchestrate registered ts delays failing now = Some (result, sink) \<and>
      map agent (agents (report result)) = map fst registered"
    by (simp add: orchestrate_eq agent_outcomeEntry)
  obtain st result sink where m: "main ws delays failing now = Some (Returned result, sink)"
    "agents (report result) = map outcomeEntry (agentPromises ws st)"
    using main_returns by blast
  from m(2) have "map agent (agents (report result)) =
        [''Security Analyzer'', ''Performance Analyzer'', ''React Analyzer'',
         ''Backend Analyzer'', ''Frontend Analyzer'', ''Database Analyzer'', ''API Analyzer'',
         ''Testing Analyzer'', ''DevOps Analyzer'']"
    by (rule main_summary_names)
  with m(1) show "\<exists>result sink. main ws delays failing now = Some (Returned result, sink) \<and>
      map agent (agents (report result)) =
        [''Security Analyzer'', ''Performance Analyzer'', ''React Analyzer'',
         ''Backend Analyzer'', ''Frontend Analyzer'', ''Database Analyzer'', ''API Analyzer'',
         ''Testing Analyzer'', ''DevOps Analyzer'']"
    by (intro exI conjI)
qed

text \<open>
  The theorem when the tasks complete in reverse order.
\<close>

theorem summary_in_registration_order_witness:
  "distinct [2, 1, 0 :: nat] \<and> set [2, 1, 0] = {0..<length threeAgents} \<and>
   (\<exists>delays' result sink. completionOrder delays' (length threeAgents) = [2, 1, 0] \<and>
      orchestrate threeAgents emptyStack delays' {} ''now'' = Some (result, sink) \<and>
      map agent (agents (report result)) = map fst threeAgents) \<and>
   completionOrder [2, 1, 0] 3 = [2, 1, 0] \<and>
   (\<exists>result sink. orchestrate threeAgents emptyStack [2, 1, 0] {} ''now'' = Some (result, sink) \<and>
      map agent (agents (report result)) = [''First'', ''Second'', ''Third'']) \<and>
   completionOrder [8, 7, 6, 5, 4, 3, 2, 1, 0] 9 = [8, 7, 6, 5, 4, 3, 2, 1, 0] \<and>
   (\<exists>result sink. main missingRoot [8, 7, 6, 5, 4, 3, 2, 1, 0] {} ''now''
        = Some (Returned result, sink) \<and>
      map agent (agents (report result)) =
        [''Security Analyzer'', ''Performance Analyzer'', ''React Analyzer'',
         ''Backend Analyzer'', ''Frontend Analyzer'', ''Database Analyzer'', ''API Analyzer'',
         ''Testing Analyzer'', ''DevOps Analyzer''])"
proof -
  have a: "completionOrder [2, 1, 0] 3 = [2, 1, 0]"
    by code_simp
  have b: "completionOrder [8, 7, 6, 5, 4, 3, 2, 1, 0] 9 = [8, 7, 6, 5, 4, 3, 2, 1, 0]"
    by code_simp
  have c: "distinct [2, 1, 0 :: nat]" "set [2, 1, 0] = {0..<length threeAgents}"
    by (auto simp add: threeAgents_def)
  have d: "\<exists>delays' result sink. completionOrder delays' (length threeAgents) = [2, 1, 0] \<and>
      orchestrate threeAgents emptyStack delays' {} ''now'' = Some (result, sink) \<and>
      map agent (agents (report result)) = map fst threeAgents"
    using c summary_in_registration_order
        [of threeAgents emptyStack "[2, 1, 0]" "{}" "''now''" missingRoot "[2, 1, 0]"]
    by blast
  have e: "(\<exists>result sink. orchestrate threeAgents emptyStack [2, 1, 0] {} ''now'' = Some (result, sink) \<and>
      map agent (agents (report result)) = [''First'', ''Second'', ''Third'']) \<and>
   (\<exists>result sink. main missingRoot [8, 7, 6, 5, 4, 3, 2, 1, 0] {} ''now''
        = Some (Returned result, sink) \<and>
      map agent (agents (report result)) =
        [''Security Analyzer'', ''Performance Analyzer'', ''React Analyzer'',
         ''Backend Analyzer'', ''Frontend Analyzer'', ''Database Analyzer'', ''API Analyzer'',
         ''Testing Analyzer'', ''DevOps Analyzer''])"
    using
      summary_in_registration_order
        [of threeAgents emptyStack "[2, 1, 0]" "{}" "''now''" missingRoot]
      summary_in_registration_order
        [of threeAgents emptyStack "[8, 7, 6, 5, 4, 3, 2, 1, 0]" "{}" "''now''" missingRoot]
    by (simp add: threeAgents_def)
  show ?thesis
    using a b c d e by (intro conjI) (simp_all only:)
qed

text \<open>
  C5 (amended). After stack building, for every workspace, \<open>frameworks\<close>, \<open>buildTools\<close>,
  \<open>packageManagers\<close> and \<open>cloudProviders\<close> contain no identifier twice, and
  \<open>databases\<close> contains no identifier other than \<^verbatim>\<open>SQL\<close> twice. The fields are
  arrays filled by \<^verbatim>\<open>push\<close> and nothing suppresses duplicates: \<open>databases\<close> is
  duplicate-free exactly when the Node ORM probe and the \<^verbatim>\<open>sqlalchemy\<close> probe do not
  both fire.
\<close>

theorem set_fields_distinct_except_sql:
  "\<exists>ts. analyzeTechStack ws = Inr ts \<and>
     distinct (frameworks ts) \<and> distinct (buildTools ts) \<and> distinct (packageManagers ts) \<and>
     distinct (cloudProviders ts) \<and>
     distinct (filter (\<lambda>d. d \<noteq> ''SQL'') (databases ts)) \<and>
     distinct (databases ts) = (\<not> (nodeOrmDetected ws \<and> sqlalchemyDetected ws))"
proof -
  obtain ts where ts: "analyzeTechStack ws = Inr ts"
    using analyzeTechStack_total by blast
  from ts show ?thesis
    using stack_frameworks stack_buildTools stack_packageManagers stack_cloudProviders
      stack_databases by blast
qed

text \<open>The theorem at a workspace where both probes fire.\<close>

theorem set_fields_distinct_except_sql_witness:
  "\<exists>ts. analyzeTechStack sqlTwice = Inr ts \<and>
     distinct (frameworks ts) \<and> distinct (buildTools ts) \<and> distinct (packageManagers ts) \<and>
     distinct (cloudProviders ts) \<and>
     distinct (filter (\<lambda>d. d \<noteq> ''SQL'') (databases ts)) \<and>
     \<not> distinct (databases ts)"
proof -
  have "nodeOrmDetected sqlTwice \<and> sqlalchemyDetected sqlTwice"
    by (simp add: nodeOrmDetected_def sqlalchemyDetected_def sqlTwice_def spreadDeps_def truthy_def)
  then show ?thesis
    using set_fields_distinct_except_sql [of sqlTwice] by auto
qed

text \<open>
  C5 as stated fails: with \<^verbatim>\<open>sequelize\<close> in the manifest and \<^verbatim>\<open>sqlalchemy\<close> in
  \<^verbatim>\<open>requirements.txt\<close>, \<open>databases\<close> holds \<^verbatim>\<open>SQL\<close> twice.
\<close>

theorem databases_sql_twice:
  "analyzeTechStack sqlTwice =
     Inr \<lparr>languages = [''JavaScript'', ''Python''], frameworks = [],
          databases = [''SQL'', ''SQL''], buildTools = [],
          packageManagers = [''npm'', ''pip''], cloudProviders = [], hasReact = False,
          hasTypeScript = False, hasNode = True, hasPython = True, hasJava = False,
          hasGo = False, hasRust = False\<rparr>
   \<and> \<not> distinct [''SQL'', ''SQL'']"
  by (simp add: analyzeTechStack_def probe_defs sqlTwice_def emptyStack_def
        detectDependencies_def Let_def spreadDeps_def truthy_def pushed_def)

text \<open>
  C6 (amended). The React, Database and Backend analyzers return no skill when their
  precondition is absent: the React flag is false, no database was detected, no backend
  file was found. The DevOps analyzer has no such guard: without any CI/CD, Docker,
  Kubernetes, Terraform, env-file or cloud-provider evidence it returns one skill, made of
  its general and its pipeline guidelines.
\<close>

theorem guarded_analyzers_return_nothing:
  "(\<not> hasReact ts \<longrightarrow> generateReactSkills ws ts = Inr []) \<and>
   (databases ts = [] \<longrightarrow> generateDatabaseSkills ws ts = Inr []) \<and>
   (glob ws ''**/*{server,api,route,controller,service}*.{js,ts,py,java,go}''
        (stdIgnore @ [''**/client/**'', ''**/frontend/**'']) = Inr []
      \<longrightarrow> generateBackendSkills ws ts = Inr []) \<and>
   (glob ws ''**/.github/workflows/*.yml'' [] = Inr [] \<and>
    access ws ''Dockerfile'' = Inl e1 \<and>
    access ws ''docker-compose.yml'' = Inl e2 \<and>
    access ws ''docker-compose.yaml'' = Inl e3 \<and>
    glob ws ''**/*{k8s,kubernetes}*.{yaml,yml}'' [] = Inr [] \<and>
    glob ws ''**/*.{tf,tf.json}'' [] = Inr [] \<and>
    glob ws ''**/.env*'' [] = Inr [] \<and>
    cloudProviders ts = []
      \<longrightarrow> generateDevOpsSkills ws ts =
          Inr [\<lparr>name = ''devops-best-practices'', displayName = ''DevOps Best Practices'',
                description =
                  ''Guidelines for DevOps and deployment based on detected infrastructure'',
                guidelines = devopsGeneralGuidelines @ devopsPipelineGuidelines,
                category = ''devops'', techStack = languages ts,
                metadata = Some [(''hasDocker'', MBool False),
                  (''hasDockerCompose'', MBool False), (''hasK8s'', MBool False),
                  (''hasTerraform'', MBool False), (''hasGitHubActions'', MBool False),
                  (''cloudProviders'', MStrs [])]\<rparr>])"
  by (simp add: generateReactSkills_def generateDatabaseSkills_def generateBackendSkills_def
        backendTry_def generateDevOpsSkills_def devopsTry_def await_def)

text \<open>
  The theorem at a workspace without files and the empty stack.
\<close>

theorem guarded_analyzers_return_nothing_witness:
  "\<not> hasReact emptyStack \<and> generateReactSkills emptyWorkspace emptyStack = Inr [] \<and>
   databases emptyStack = [] \<and> generateDatabaseSkills emptyWorkspace emptyStack = Inr [] \<and>
   glob emptyWorkspace ''**/*{server,api,route,controller,service}*.{js,ts,py,java,go}''
        (stdIgnore @ [''**/client/**'', ''**/frontend/**'']) = Inr [] \<and>
   generateBackendSkills emptyWorkspace emptyStack = Inr [] \<and>
   length (guidelines (hd (projr (generateDevOpsSkills emptyWorkspace emptyStack)))) = 16"
proof -
  have h: "\<not> hasReact emptyStack" "databases emptyStack = []" "cloudProviders emptyStack = []"
    "languages emptyStack = []"
    by (simp_all add: emptyStack_def)
  have g: "glob emptyWorkspace pat ign = Inr []" "access emptyWorkspace p = Inl (Error ''ENOENT'')"
    for pat ign p
    by (simp_all add: emptyWorkspace_def)
  have l: "length devopsGeneralGuidelines = 10" "length devopsPipelineGuidelines = 6"
    by (simp_all add: devopsGeneralGuidelines_def devopsPipelineGuidelines_def)
  show ?thesis
    using guarded_analyzers_return_nothing
      [of emptyStack emptyWorkspace "Error ''ENOENT''" "Error ''ENOENT''" "Error ''ENOENT''"]
    by (simp add: h g l)
qed

text \<open>
  C6 as stated fails for the DevOps analyzer: with every kind of evidence absent it
  returns a generic skill, not the empty sequence.
\<close>

theorem devops_generic_skill:
  "glob emptyWorkspace ''**/.github/workflows/*.yml'' [] = Inr [] \<and>
   access emptyWorkspace ''Dockerfile'' = Inl (Error ''ENOENT'') \<and>
   access emptyWorkspace ''docker-compose.yml'' = Inl (Error ''ENOENT'') \<and>
   access emptyWorkspace ''docker-compose.yaml'' = Inl (Error ''ENOENT'') \<and>
   glob emptyWorkspace ''**/*{k8s,kubernetes}*.{yaml,yml}'' [] = Inr [] \<and>
   glob emptyWorkspace ''**/*.{tf,tf.json}'' [] = Inr [] \<and>
   glob emptyWorkspace ''**/.env*'' [] = Inr [] \<and>
   cloudProviders emptyStack = [] \<and>
   generateDevOpsSkills emptyWorkspace emptyStack =
     Inr [\<lparr>name = ''devops-best-practices'', displayName = ''DevOps Best Practices'',
           description = ''Guidelines for DevOps and deployment based on detected infrastructure'',
           guidelines = devopsGeneralGuidelines @ devopsPipelineGuidelines,
           category = ''devops'', techStack = [],
           metadata = Some [(''hasDocker'', MBool False), (''hasDockerCompose'', MBool False),
             (''hasK8s'', MBool False), (''hasTerraform'', MBool False),
             (''hasGitHubActions'', MBool False), (''cloudProviders'', MStrs [])]\<rparr>] \<and>
   generateDevOpsSkills emptyWorkspace emptyStack \<noteq> Inr []"
  by (simp add: emptyWorkspace_skills) (simp add: emptyWorkspace_def emptyStack_def)

text \<open>
  C7 (amended). Every content scan reads at most its cap of candidate files: 10 for the
  environment-variable scan, 20 for the async-pattern scan, 30 for the React hooks scan, 10
  for the state-management scan, 20 for the API scan. The environment-variable scan and
  the async-pattern scan stop at the first positive match: they read the candidates before
  it and the match, and nothing after it. The other three collect several flags and read
  every candidate up to the cap.
\<close>

theorem scans_capped:
  "length (snd (scanEnvVars ws envUsage)) \<le> 10 \<and>
   length (snd (scanAsync ws asyncFiles)) \<le> 20 \<and>
   length (snd (scanHooks ws reactFiles)) \<le> 30 \<and>
   length (snd (scanState ws stateFiles)) \<le> 10 \<and>
   length (snd (scanApi ws apiFiles)) \<le> 20 \<and>
   scanEnvVars ws envUsage =
     (list_ex (envMarker ws) (take 10 envUsage), upToFirst (envMarker ws) (take 10 envUsage)) \<and>
   scanAsync ws asyncFiles =
     (list_ex (asyncMarker ws) (take 20 asyncFiles),
      upToFirst (asyncMarker ws) (take 20 asyncFiles)) \<and>
   (snd (scanEnvVars ws envUsage) = earlier @ found # later \<and> envMarker ws found
      \<longrightarrow> later = []) \<and>
   (snd (scanAsync ws asyncFiles) = earlier' @ found' # later' \<and> asyncMarker ws found'
      \<longrightarrow> later' = []) \<and>
   snd (scanHooks ws reactFiles) = take 30 reactFiles \<and>
   snd (scanState ws stateFiles) = take 10 stateFiles \<and>
   snd (scanApi ws apiFiles) = take 20 apiFiles"
proof -
  have "length (upToFirst (envMarker ws) (take 10 envUsage)) \<le> 10"
    using length_upToFirst [of "envMarker ws" "take 10 envUsage"] by simp
  moreover have "length (upToFirst (asyncMarker ws) (take 20 asyncFiles)) \<le> 20"
    using length_upToFirst [of "asyncMarker ws" "take 20 asyncFiles"] by simp
  ultimately show ?thesis
    using upToFirst_stops [of "envMarker ws" "take 10 envUsage" earlier found later]
      upToFirst_stops [of "asyncMarker ws" "take 20 asyncFiles" earlier' found' later']
    by (simp add: scanEnvVars_def scanAsync_def scanHooks_def scanState_def scanApi_def
          scanEnvVarsFrom_eq scanAsyncFrom_eq scanHooksFrom_reads scanStateFrom_reads
          scanApiFrom_reads)
qed

text \<open>
  The theorem at a workspace whose files all match: the async-pattern scan stops after
  the first file, the hooks scan reads both.
\<close>

theorem scans_capped_witness:
  "scanAsync hooksEverywhere [''a.jsx'', ''b.jsx''] = (True, [''a.jsx'']) \<and>
   snd (scanHooks hooksEverywhere [''a.jsx'', ''b.jsx'']) = [''a.jsx'', ''b.jsx'']"
proof -
  have "asyncMarker hooksEverywhere ''a.jsx''"
    by (simp add: asyncMarker_def hooksEverywhere_def)
  then show ?thesis
    using scans_capped [of hooksEverywhere "[]" "[''a.jsx'', ''b.jsx'']"
        "[''a.jsx'', ''b.jsx'']" "[]" "[]" "[]" "''a.jsx''" "[]" "[]" "''a.jsx''" "[]"]
    by (simp add: upToFirst_def)
qed

text \<open>
  C7 as stated fails for the React hooks scan: the first file is a positive match for
  \<^verbatim>\<open>useState\<close>, and the loop still reads the second.
\<close>

theorem hooks_scan_reads_past_match:
  "readFile hooksEverywhere ''a.jsx'' = Inr ''const [n, setN] = useState(0); await f()'' \<and>
   str_includes ''const [n, setN] = useState(0); await f()'' ''useState'' \<and>
   snd (scanHooks hooksEverywhere [''a.jsx'', ''b.jsx'']) = [''a.jsx'', ''b.jsx'']"
  by (simp add: scanHooks_def hooksEverywhere_def)

text \<open>
  C8. Every skill the successful agents produced is handed to the sink, one call per skill,
  in the order of the result (the agents in registration order, each agent's skills in
  their order), whichever of the calls fail: call \<open>i\<close> is recorded with the \<open>i\<close>-th skill,
  as failed exactly when \<open>i\<close> is among the failing calls, and the calls after a failed
  one are still made. This holds for every list of registered agents and for \<^verbatim>\<open>main\<close>,
  whose outcome is the same as when no call fails.
\<close>

theorem every_skill_offered_to_sink:
  "(\<exists>result sink. orchestrate registered ts delays failing now = Some (result, sink) \<and>
      skills result =
        concat (map (\<lambda>(n, t). case t of Inl e \<Rightarrow> [] | Inr produced \<Rightarrow> produced)
                  registered) \<and>
      sink = zip (skills result) (map (\<lambda>i. i \<notin> failing) [0..<length (skills result)])) \<and>
   (\<exists>st result sink. analyzeTechStack ws = Inr st \<and>
      main ws delays failing now = Some (Returned result, sink) \<and>
      skills result =
        concat (map (\<lambda>(n, t). case t of Inl e \<Rightarrow> [] | Inr produced \<Rightarrow> produced)
                  (agentPromises ws st)) \<and>
      sink = zip (skills result) (map (\<lambda>i. i \<notin> failing) [0..<length (skills result)])) \<and>
   map_option fst (main ws delays failing now) = map_option fst (main ws delays {} now)"
proof (intro conjI)
  show "\<exists>result sink. orchestrate registered ts delays failing now = Some (result, sink) \<and>
      skills result =
        concat (map (\<lambda>(n, t). case t of Inl e \<Rightarrow> [] | Inr produced \<Rightarrow> produced)
                  registered) \<and>
      sink = zip (skills result) (map (\<lambda>i. i \<notin> failing) [0..<length (skills result)])"
    by (simp add: orchestrate_eq saveAll_zip outcomeSkills_case)
  obtain st result sink where m: "analyzeTechStack ws = Inr st"
    "main ws delays failing now = Some (Returned result, sink)"
    "skills result = concat (map outcomeSkills (agentPromises ws st))"
    "sink = saveAll failing (skills result)"
    using main_entries [of ws delays failing now] by blast
  have "skills result =
        concat (map (\<lambda>(n, t). case t of Inl e \<Rightarrow> [] | Inr produced \<Rightarrow> produced)
                  (agentPromises ws st))"
    by (simp only: m(3) outcomeSkills_case)
  moreover have
    "sink = zip (skills result) (map (\<lambda>i. i \<notin> failing) [0..<length (skills result)])"
    by (simp only: m(4) saveAll_zip)
  ultimately show "\<exists>st result sink. analyzeTechStack ws = Inr st \<and>
      main ws delays failing now = Some (Returned result, sink) \<and>
      skills result =
        concat (map (\<lambda>(n, t). case t of Inl e \<Rightarrow> [] | Inr produced \<Rightarrow> produced)
                  (agentPromises ws st)) \<and>
      sink = zip (skills result) (map (\<lambda>i. i \<notin> failing) [0..<length (skills result)])"
    using m(1,2) by (intro exI conjI)
  show "map_option fst (main ws delays failing now) = map_option fst (main ws delays {} now)"
    by (rule main_ignores_failing)
qed

text \<open>
  The theorem when the first save fails: at three agents of which the second throws, and
  at a run of \<^verbatim>\<open>main\<close> that produces six skills.
\<close>

theorem every_skill_offered_to_sink_witness:
  "(\<exists>result sink. orchestrate threeAgents emptyStack [2, 1, 0] {0} ''now'' = Some (result, sink) \<and>
      sink = [(sampleSkill, False), (sampleSkill, True), (sampleSkill, True)]) \<and>
   (\<exists>result sink. main missingRoot [2, 1, 0] {0} ''now'' = Some (Returned result, sink) \<and>
      map (\<lambda>(saved, ok). (name saved, ok)) sink =
        [(''security-best-practices'', False), (''performance-optimization'', True),
         (''frontend-best-practices'', True), (''api-best-practices'', True),
         (''testing-best-practices'', True), (''devops-best-practices'', True)])"
proof -
  have u: "[0..<3] = [0, 1, 2]" "[0..<6] = [0, 1, 2, 3, 4, 5]"
    by code_simp+
  note t = every_skill_offered_to_sink
    [of threeAgents emptyStack "[2, 1, 0]" "{0}" "''now''" missingRoot]
  from t have a: "\<exists>result sink.
      orchestrate threeAgents emptyStack [2, 1, 0] {0} ''now'' = Some (result, sink) \<and>
      sink = [(sampleSkill, False), (sampleSkill, True), (sampleSkill, True)]"
    by (auto simp add: threeAgents_def u)
  from t obtain result sink where m:
    "main missingRoot [2, 1, 0] {0} ''now'' = Some (Returned result, sink)"
    "skills result =
        concat (map (\<lambda>(n, t). case t of Inl e \<Rightarrow> [] | Inr produced \<Rightarrow> produced)
                  (agentPromises missingRoot emptyStack))"
    "sink = zip (skills result) (map (\<lambda>i. i \<notin> {0}) [0..<length (skills result)])"
    by (auto simp add: missingRoot_stack)
  have n: "map name (skills result) =
     [''security-best-practices'', ''performance-optimization'', ''frontend-best-practices'',
      ''api-best-practices'', ''testing-best-practices'', ''devops-best-practices'']"
    using missingRoot_skill_names by (simp only: m(2) outcomeSkills_case)
  have "length (map name (skills result)) = 6"
    by (simp only: n) simp
  then have l: "length (skills result) = 6"
    by simp
  have "map (\<lambda>(saved, ok). (name saved, ok)) sink =
        zip (map name (skills result)) (map (\<lambda>i. i \<notin> {0}) [0..<length (skills result)])"
    by (simp add: m(3) zip_map1 case_prod_unfold)
  then have "map (\<lambda>(saved, ok). (name saved, ok)) sink =
        [(''security-best-practices'', False), (''performance-optimization'', True),
         (''frontend-best-practices'', True), (''api-best-practices'', True),
         (''testing-best-practices'', True), (''devops-best-practices'', True)]"
    by (simp add: n l u)
  with m(1) have b: "\<exists>result sink.
      main missingRoot [2, 1, 0] {0} ''now'' = Some (Returned result, sink) \<and>
      map (\<lambda>(saved, ok). (name saved, ok)) sink =
        [(''security-best-practices'', False), (''performance-optimization'', True),
         (''frontend-best-practices'', True), (''api-best-practices'', True),
         (''testing-best-practices'', True), (''devops-best-practices'', True)]"
    by (intro exI conjI)
  from a b show ?thesis
    by (rule conjI)
qed

text \<open>
  C9. Every promise passed to \<^verbatim>\<open>Promise.allSettled\<close> fulfils, with a value that
  carries the agent's registered name, whatever the task settles to. So the branch of the
  aggregation loop for a rejected promise is never taken: in every run of \<^verbatim>\<open>main\<close>
  the summary entries carry the nine registered names, and none is named
  \<^verbatim>\<open>Unknown\<close>.
\<close>

theorem wrapper_always_fulfils:
  "(\<exists>vs. allSettled delays (map runAgent registered) = Some (map Fulfilled vs) \<and>
      map agentName vs = map fst registered) \<and>
   (\<exists>result sink. main ws delays failing now = Some (Returned result, sink) \<and>
      map agent (agents (report result)) =
        [''Security Analyzer'', ''Performance Analyzer'', ''React Analyzer'',
         ''Backend Analyzer'', ''Frontend Analyzer'', ''Database Analyzer'', ''API Analyzer'',
         ''Testing Analyzer'', ''DevOps Analyzer''] \<and>
      ''Unknown'' \<notin> set (map agent (agents (report result))))"
proof
  show "\<exists>vs. allSettled delays (map runAgent registered) = Some (map Fulfilled vs) \<and>
      map agentName vs = map fst registered"
    using runAgents_fulfil [of registered] by (simp add: allSettled_delivers)
  obtain st result sink where m: "main ws delays failing now = Some (Returned result, sink)"
    "agents (report result) = map outcomeEntry (agentPromises ws st)"
    using main_returns by blast
  from m(2) have n: "map agent (agents (report result)) =
        [''Security Analyzer'', ''Performance Analyzer'', ''React Analyzer'',
         ''Backend Analyzer'', ''Frontend Analyzer'', ''Database Analyzer'', ''API Analyzer'',
         ''Testing Analyzer'', ''DevOps Analyzer'']"
    by (rule main_summary_names)
  have "''Unknown'' \<notin> set (map agent (agents (report result)))"
    by (simp only: n) simp
  with m(1) n show "\<exists>result sink. main ws delays failing now = Some (Returned result, sink) \<and>
      map agent (agents (report result)) =
        [''Security Analyzer'', ''Performance Analyzer'', ''React Analyzer'',
         ''Backend Analyzer'', ''Frontend Analyzer'', ''Database Analyzer'', ''API Analyzer'',
         ''Testing Analyzer'', ''DevOps Analyzer''] \<and>
      ''Unknown'' \<notin> set (map agent (agents (report result)))"
    by (intro exI conjI)
qed

text \<open>
  The theorem at three agents of which the second throws, and at a run of \<^verbatim>\<open>main\<close>.
\<close>

theorem wrapper_always_fulfils_witness:
  "(\<exists>vs. allSettled [1, 0] (map runAgent threeAgents) = Some (map Fulfilled vs) \<and>
      map agentName vs = [''First'', ''Second'', ''Third'']) \<and>
   (\<exists>result sink. main missingRoot [1, 0] {} ''now'' = Some (Returned result, sink) \<and>
      ''Unknown'' \<notin> set (map agent (agents (report result))))"
  using wrapper_always_fulfils [of "[1, 0]" threeAgents missingRoot "{}" "''now''"]
  by (simp add: threeAgents_def) fastforce




end
